theory Spec2Isabelle
  imports Complex_Main
begin

section \<open>Numbers\<close>

text \<open>
  The library computes on JavaScript numbers. A number is modelled as a finite real or
  one of the three special values of the number type: \<open>Infinity\<close>, \<open>-Infinity\<close> and
  \<open>NaN\<close>. Finite arithmetic is exact (rounding, overflow and underflow of the binary64
  format are not modelled) and the sign of a zero is not tracked: every zero divisor is
  taken as \<open>+0\<close>, which is the only zero the square roots and sums of squares that the
  modelled functions divide by can produce. The special values follow the IEEE rules that
  JavaScript uses: \<open>x / 0\<close> is an infinity (or \<open>NaN\<close> for \<open>0 / 0\<close>), \<open>0 * Infinity\<close> is
  \<open>NaN\<close>, \<open>NaN\<close> propagates and compares false with everything, itself included.
\<close>

datatype number = Fin real | PInf | NInf | NaN

fun isFinite :: "number \<Rightarrow> bool" where
  "isFinite (Fin a) = True"
| "isFinite PInf = False"
| "isFinite NInf = False"
| "isFinite NaN = False"

definition inf_of_sign :: "real \<Rightarrow> number" where
  "inf_of_sign s = (if s = 0 then NaN else if 0 < s then PInf else NInf)"

fun sign_of :: "number \<Rightarrow> real" where
  "sign_of (Fin a) = sgn a"
| "sign_of PInf = 1"
| "sign_of NInf = - 1"
| "sign_of NaN = 0"

instantiation number :: "{plus, minus, uminus, times, inverse, ord}"
begin

fun uminus_number :: "number \<Rightarrow> number" where
  "- Fin a = Fin (- a)"
| "- PInf = NInf"
| "- NInf = PInf"
| "- NaN = NaN"

fun plus_number :: "number \<Rightarrow> number \<Rightarrow> number" where
  "Fin a + Fin b = Fin (a + b)"
| "NaN + b = NaN"
| "a + NaN = NaN"
| "PInf + NInf = NaN"
| "NInf + PInf = NaN"
| "PInf + b = PInf"
| "NInf + b = NInf"
| "a + PInf = PInf"
| "a + NInf = NInf"

definition minus_number :: "number \<Rightarrow> number \<Rightarrow> number" where
  "minus_number a b = a + (- b)"

fun times_number :: "number \<Rightarrow> number \<Rightarrow> number" where
  "Fin a * Fin b = Fin (a * b)"
| "NaN * b = NaN"
| "a * NaN = NaN"
| "a * b = inf_of_sign (sign_of a * sign_of b)"

fun divide_number :: "number \<Rightarrow> number \<Rightarrow> number" where
  "divide_number (Fin a) (Fin b) = (if b = 0 then inf_of_sign a else Fin (a / b))"
| "divide_number NaN b = NaN"
| "divide_number a NaN = NaN"
| "divide_number (Fin a) b = Fin 0"
| "divide_number a (Fin b) = inf_of_sign (sign_of a * (if b < 0 then - 1 else 1))"
| "divide_number a b = NaN"

definition inverse_number :: "number \<Rightarrow> number" where
  "inverse_number a = divide (Fin 1) a"

fun less_number :: "number \<Rightarrow> number \<Rightarrow> bool" where
  "Fin a < Fin b \<longleftrightarrow> a < b"
| "NaN < b \<longleftrightarrow> False"
| "a < NaN \<longleftrightarrow> False"
| "a < NInf \<longleftrightarrow> False"
| "PInf < b \<longleftrightarrow> False"
| "NInf < b \<longleftrightarrow> True"
| "a < PInf \<longleftrightarrow> True"

definition less_eq_number :: "number \<Rightarrow> number \<Rightarrow> bool" where
  "less_eq_number a b \<longleftrightarrow> a < b \<or> (a \<noteq> NaN \<and> a = b)"

instance ..

end

text \<open>The strict equality \<open>===\<close> on numbers: \<open>NaN\<close> is not equal to itself.\<close>

definition strict_eq :: "number \<Rightarrow> number \<Rightarrow> bool" where
  "strict_eq a b \<longleftrightarrow> a \<noteq> NaN \<and> a = b"

fun Math_sqrt :: "number \<Rightarrow> number" where
  "Math_sqrt (Fin a) = (if a < 0 then NaN else Fin (sqrt a))"
| "Math_sqrt PInf = PInf"
| "Math_sqrt NInf = NaN"
| "Math_sqrt NaN = NaN"

fun Math_sin :: "number \<Rightarrow> number" where
  "Math_sin (Fin a) = Fin (sin a)"
| "Math_sin PInf = NaN"
| "Math_sin NInf = NaN"
| "Math_sin NaN = NaN"

fun Math_cos :: "number \<Rightarrow> number" where
  "Math_cos (Fin a) = Fin (cos a)"
| "Math_cos PInf = NaN"
| "Math_cos NInf = NaN"
| "Math_cos NaN = NaN"

fun Math_acos :: "number \<Rightarrow> number" where
  "Math_acos (Fin a) = (if - 1 \<le> a \<and> a \<le> 1 then Fin (arccos a) else NaN)"
| "Math_acos PInf = NaN"
| "Math_acos NInf = NaN"
| "Math_acos NaN = NaN"

definition DEG2RAD :: number where
  "DEG2RAD = Fin (pi / 180)"

section \<open>Objects and the store\<close>

text \<open>
  Vectors, quaternions, planes and matrices are mutable objects passed by reference. The
  store holds the objects of each type in a list; a reference is an index into it, an
  object literal appends to it. A parameter of the source is a local variable holding a
  reference: assigning to a field writes the store, assigning to the parameter itself
  rebinds the local variable and leaves the object of the caller alone. Objects of
  different types live in different lists, so a vector is never also a quaternion.

  In the record of a matrix, \<open>mData\<close> is the element array \<open>_m\<close> (sixteen numbers, by its
  type \<open>Matrix4x4\<close>), and \<open>isIdentityDirty\<close> and \<open>isIdentity3x2Dirty\<close> are the fields
  \<open>_isIdentityDirty\<close> and \<open>_isIdentity3x2Dirty\<close>; \<open>markAsUpdated\<close> and \<open>updateIdentityStatus\<close>
  below are \<open>_markAsUpdated\<close> and \<open>_updateIdentityStatus\<close>, and \<open>updateFlagSeed\<close> is the
  module variable \<open>_updateFlagSeed\<close>.
\<close>

type_synonym ref = nat

record vector3 =
  vx :: number
  vy :: number
  vz :: number

record quaternion =
  qx :: number
  qy :: number
  qz :: number
  qw :: number

record plane =
  normal :: ref
  d :: number

record matrix =
  updateFlag :: nat
  isIdentity :: bool
  isIdentity3x2 :: bool
  isIdentityDirty :: bool
  isIdentity3x2Dirty :: bool
  mData :: "number list"

record store =
  vector3s :: "vector3 list"
  quaternions :: "quaternion list"
  planes :: "plane list"
  matrices :: "matrix list"
  updateFlagSeed :: nat

definition vec :: "store \<Rightarrow> ref \<Rightarrow> vector3" where
  "vec h r = vector3s h ! r"

definition quat :: "store \<Rightarrow> ref \<Rightarrow> quaternion" where
  "quat h r = quaternions h ! r"

definition mat :: "store \<Rightarrow> ref \<Rightarrow> matrix" where
  "mat h r = matrices h ! r"

text \<open>A field assignment \<open>r.f = v\<close> rewrites the object that the reference names.\<close>

definition set_vec :: "store \<Rightarrow> ref \<Rightarrow> (vector3 \<Rightarrow> vector3) \<Rightarrow> store" where
  "set_vec h r f = h\<lparr>vector3s := (vector3s h)[r := f (vector3s h ! r)]\<rparr>"

definition set_quat :: "store \<Rightarrow> ref \<Rightarrow> (quaternion \<Rightarrow> quaternion) \<Rightarrow> store" where
  "set_quat h r f = h\<lparr>quaternions := (quaternions h)[r := f (quaternions h ! r)]\<rparr>"

definition set_mat :: "store \<Rightarrow> ref \<Rightarrow> (matrix \<Rightarrow> matrix) \<Rightarrow> store" where
  "set_mat h r f = h\<lparr>matrices := (matrices h)[r := f (matrices h ! r)]\<rparr>"

section \<open>Vector3\<close>

definition Vector3_create :: "store \<Rightarrow> number \<Rightarrow> number \<Rightarrow> number \<Rightarrow> ref \<times> store" where
  "Vector3_create h x y z =
     (length (vector3s h), h\<lparr>vector3s := vector3s h @ [\<lparr>vx = x, vy = y, vz = z\<rparr>]\<rparr>)"

definition Vector3_Zero :: "store \<Rightarrow> ref \<times> store" where
  "Vector3_Zero h = Vector3_create h (Fin 0) (Fin 0) (Fin 0)"

definition Vector3_copyFrom :: "store \<Rightarrow> ref \<Rightarrow> ref \<Rightarrow> store" where
  "Vector3_copyFrom h source dest =
     (let h = set_vec h dest (\<lambda>v. v\<lparr>vx := vx (vec h source)\<rparr>);
          h = set_vec h dest (\<lambda>v. v\<lparr>vy := vy (vec h source)\<rparr>);
          h = set_vec h dest (\<lambda>v. v\<lparr>vz := vz (vec h source)\<rparr>)
      in h)"

definition Vector3_length :: "store \<Rightarrow> ref \<Rightarrow> number" where
  "Vector3_length h vector =
     Math_sqrt (vx (vec h vector) * vx (vec h vector) + vy (vec h vector) * vy (vec h vector)
                + vz (vec h vector) * vz (vec h vector))"

definition Vector3_lengthSquared :: "store \<Rightarrow> ref \<Rightarrow> number" where
  "Vector3_lengthSquared h vector =
     vx (vec h vector) * vx (vec h vector) + vy (vec h vector) * vy (vec h vector)
       + vz (vec h vector) * vz (vec h vector)"

definition Vector3_scaleToRef :: "store \<Rightarrow> ref \<Rightarrow> number \<Rightarrow> ref \<Rightarrow> store" where
  "Vector3_scaleToRef h vector scale result =
     (let h = set_vec h result (\<lambda>v. v\<lparr>vx := vx (vec h vector) * scale\<rparr>);
          h = set_vec h result (\<lambda>v. v\<lparr>vy := vy (vec h vector) * scale\<rparr>);
          h = set_vec h result (\<lambda>v. v\<lparr>vz := vz (vec h vector) * scale\<rparr>)
      in h)"

definition Vector3_normalizeFromLengthToRef :: "store \<Rightarrow> ref \<Rightarrow> number \<Rightarrow> ref \<Rightarrow> store" where
  "Vector3_normalizeFromLengthToRef h vector len result =
     (if strict_eq len (Fin 0) \<or> strict_eq len (Fin 1) then Vector3_copyFrom h vector result
      else Vector3_scaleToRef h vector (Fin 1 / len) result)"

definition Vector3_normalizeFromLength :: "store \<Rightarrow> ref \<Rightarrow> number \<Rightarrow> ref \<times> store" where
  "Vector3_normalizeFromLength h vector len =
     (let (result, h) = Vector3_create h (Fin 0) (Fin 0) (Fin 0);
          h = Vector3_normalizeFromLengthToRef h vector len result
      in (result, h))"

definition Vector3_normalize :: "store \<Rightarrow> ref \<Rightarrow> ref \<times> store" where
  "Vector3_normalize h vector = Vector3_normalizeFromLength h vector (Vector3_length h vector)"

definition Vector3_normalizeToRef :: "store \<Rightarrow> ref \<Rightarrow> ref \<Rightarrow> store" where
  "Vector3_normalizeToRef h vector result =
     Vector3_normalizeFromLengthToRef h vector (Vector3_length h vector) result"

text \<open>
  The divisors of the divisions that \<open>normalizeFromLengthToRef\<close> executes: none on the
  branch that copies, \<open>len\<close> (in \<open>1.0 / len\<close>) on the branch that scales.
\<close>

definition Vector3_normalizeFromLengthToRef_divisors :: "number \<Rightarrow> number list" where
  "Vector3_normalizeFromLengthToRef_divisors len =
     (if strict_eq len (Fin 0) \<or> strict_eq len (Fin 1) then [] else [len])"

definition Vector3_normalize_divisors :: "store \<Rightarrow> ref \<Rightarrow> number list" where
  "Vector3_normalize_divisors h vector =
     Vector3_normalizeFromLengthToRef_divisors (Vector3_length h vector)"

definition finite_vector3 :: "vector3 \<Rightarrow> bool" where
  "finite_vector3 v \<longleftrightarrow> isFinite (vx v) \<and> isFinite (vy v) \<and> isFinite (vz v)"

section \<open>Quaternion\<close>

definition Quaternion_create ::
  "store \<Rightarrow> number \<Rightarrow> number \<Rightarrow> number \<Rightarrow> number \<Rightarrow> ref \<times> store" where
  "Quaternion_create h x y z w =
     (length (quaternions h),
      h\<lparr>quaternions := quaternions h @ [\<lparr>qx = x, qy = y, qz = z, qw = w\<rparr>]\<rparr>)"

definition Quaternion_Identity :: "store \<Rightarrow> ref \<times> store" where
  "Quaternion_Identity h = Quaternion_create h (Fin 0) (Fin 0) (Fin 0) (Fin 1)"

definition Quaternion_Zero :: "store \<Rightarrow> ref \<times> store" where
  "Quaternion_Zero h = Quaternion_create h (Fin 0) (Fin 0) (Fin 0) (Fin 0)"

definition Quaternion_dot :: "store \<Rightarrow> ref \<Rightarrow> ref \<Rightarrow> number" where
  "Quaternion_dot h left right =
     qx (quat h left) * qx (quat h right) + qy (quat h left) * qy (quat h right)
       + qz (quat h left) * qz (quat h right) + qw (quat h left) * qw (quat h right)"

definition Quaternion_lengthSquared :: "store \<Rightarrow> ref \<Rightarrow> number" where
  "Quaternion_lengthSquared h q =
     qx (quat h q) * qx (quat h q) + qy (quat h q) * qy (quat h q)
       + qz (quat h q) * qz (quat h q) + qw (quat h q) * qw (quat h q)"

definition Quaternion_length :: "store \<Rightarrow> ref \<Rightarrow> number" where
  "Quaternion_length h q = Math_sqrt (Quaternion_lengthSquared h q)"

definition Quaternion_normalize :: "store \<Rightarrow> ref \<Rightarrow> ref \<times> store" where
  "Quaternion_normalize h q =
     (let qLength = Fin 1 / Quaternion_length h q
      in Quaternion_create h (qx (quat h q) * qLength) (qy (quat h q) * qLength)
           (qz (quat h q) * qLength) (qw (quat h q) * qLength))"

definition Quaternion_slerpToRef :: "store \<Rightarrow> ref \<Rightarrow> ref \<Rightarrow> number \<Rightarrow> ref \<Rightarrow> store" where
  "Quaternion_slerpToRef h left right amount result =
     (let num4 = qx (quat h left) * qx (quat h right) + qy (quat h left) * qy (quat h right)
                   + qz (quat h left) * qz (quat h right) + qw (quat h left) * qw (quat h right);
          flag = (num4 < Fin 0);
          num4 = (if flag then - num4 else num4);
          (num3, num2) =
            (if num4 > Fin (999999 / 1000000)
             then (Fin 1 - amount, if flag then - amount else amount)
             else (let num5 = Math_acos num4;
                       num6 = Fin 1 / Math_sin num5
                   in (Math_sin ((Fin 1 - amount) * num5) * num6,
                       if flag then (- Math_sin (amount * num5)) * num6
                       else Math_sin (amount * num5) * num6)));
          h = set_quat h result (\<lambda>q. q\<lparr>qx := num3 * qx (quat h left) + num2 * qx (quat h right)\<rparr>);
          h = set_quat h result (\<lambda>q. q\<lparr>qy := num3 * qy (quat h left) + num2 * qy (quat h right)\<rparr>);
          h = set_quat h result (\<lambda>q. q\<lparr>qz := num3 * qz (quat h left) + num2 * qz (quat h right)\<rparr>);
          h = set_quat h result (\<lambda>q. q\<lparr>qw := num3 * qw (quat h left) + num2 * qw (quat h right)\<rparr>)
      in h)"

text \<open>
  The two weights \<open>num3\<close> (of \<open>left\<close>) and \<open>num2\<close> (of \<open>right\<close>) that \<open>slerpToRef\<close> computes
  from the dot product and the amount, as a function of their own for the proofs.
\<close>

definition Quaternion_slerp_weights :: "number \<Rightarrow> number \<Rightarrow> number \<times> number" where
  "Quaternion_slerp_weights dot amount =
     (let num4 = dot;
          flag = (num4 < Fin 0);
          num4 = (if flag then - num4 else num4)
      in if num4 > Fin (999999 / 1000000)
         then (Fin 1 - amount, if flag then - amount else amount)
         else (let num5 = Math_acos num4;
                   num6 = Fin 1 / Math_sin num5
               in (Math_sin ((Fin 1 - amount) * num5) * num6,
                   if flag then (- Math_sin (amount * num5)) * num6
                   else Math_sin (amount * num5) * num6)))"

definition finite_quaternion :: "quaternion \<Rightarrow> bool" where
  "finite_quaternion q \<longleftrightarrow> isFinite (qx q) \<and> isFinite (qy q) \<and> isFinite (qz q) \<and> isFinite (qw q)"

definition Quaternion_slerp :: "store \<Rightarrow> ref \<Rightarrow> ref \<Rightarrow> number \<Rightarrow> ref \<times> store" where
  "Quaternion_slerp h left right amount =
     (let (result, h) = Quaternion_Identity h;
          h = Quaternion_slerpToRef h left right amount result
      in (result, h))"

definition Quaternion_angleAxis :: "store \<Rightarrow> number \<Rightarrow> ref \<Rightarrow> ref \<times> store" where
  "Quaternion_angleAxis h degress axis =
     (if strict_eq (Vector3_lengthSquared h axis) (Fin 0) then Quaternion_Identity h
      else
        (let (result, h) = Quaternion_Identity h;
             radians = degress * DEG2RAD;
             radians = radians * Fin (1 / 2);
             (a2, h) = Vector3_normalize h axis;
             h = Vector3_scaleToRef h a2 (Math_sin radians) a2;
             h = set_quat h result (\<lambda>q. q\<lparr>qx := vx (vec h a2)\<rparr>);
             h = set_quat h result (\<lambda>q. q\<lparr>qy := vy (vec h a2)\<rparr>);
             h = set_quat h result (\<lambda>q. q\<lparr>qz := vz (vec h a2)\<rparr>);
             h = set_quat h result (\<lambda>q. q\<lparr>qw := Math_cos radians\<rparr>)
         in Quaternion_normalize h result))"

section \<open>Plane\<close>

definition Plane_create :: "store \<Rightarrow> number \<Rightarrow> number \<Rightarrow> number \<Rightarrow> number \<Rightarrow> ref \<times> store" where
  "Plane_create h a b c d' =
     (let (n, h) = Vector3_create h a b c
      in (length (planes h), h\<lparr>planes := planes h @ [\<lparr>normal = n, d = d'\<rparr>]\<rparr>))"

definition Plane_normalize :: "store \<Rightarrow> ref \<Rightarrow> ref \<times> store" where
  "Plane_normalize h plane =
     (let (result, h) = Plane_create h (Fin 0) (Fin 0) (Fin 0) (Fin 0);
          pn = normal (planes h ! plane);
          norm = Math_sqrt (vx (vec h pn) * vx (vec h pn) + vy (vec h pn) * vy (vec h pn)
                            + vz (vec h pn) * vz (vec h pn));
          magnitude = Fin 0;
          magnitude = (if \<not> strict_eq norm (Fin 0) then Fin 1 / norm else magnitude);
          h = set_vec h (normal (planes h ! result)) (\<lambda>v. v\<lparr>vx := vx (vec h (normal (planes h ! plane))) * magnitude\<rparr>);
          h = set_vec h (normal (planes h ! result)) (\<lambda>v. v\<lparr>vy := vy (vec h (normal (planes h ! plane))) * magnitude\<rparr>);
          h = set_vec h (normal (planes h ! result)) (\<lambda>v. v\<lparr>vz := vz (vec h (normal (planes h ! plane))) * magnitude\<rparr>);
          h = h\<lparr>planes := (planes h)[result := (planes h ! result)\<lparr>d := d (planes h ! result) * magnitude\<rparr>]\<rparr>
      in (plane, h))"

section \<open>Matrix\<close>

text \<open>An element assignment \<open>self._m[i] = v\<close>.\<close>

definition set_m :: "store \<Rightarrow> ref \<Rightarrow> nat \<Rightarrow> number \<Rightarrow> store" where
  "set_m h r i v = set_mat h r (\<lambda>M. M\<lparr>mData := (mData M)[i := v]\<rparr>)"

text \<open>
  The two functions that stamp a matrix. \<open>self.updateFlag = _updateFlagSeed++\<close> stores the
  value the counter had and leaves the counter one higher. The counter and the stamps are
  natural numbers: the counter of the source starts at 0 and only ever grows by 1, and a
  JavaScript number holds every integer up to \<open>2^53\<close> exactly, so for fewer stamps than that
  the counter of the source is the natural number of the model.
\<close>

definition markAsUpdated :: "store \<Rightarrow> ref \<Rightarrow> store" where
  "markAsUpdated h self =
     (let stamp = updateFlagSeed h;
          h = h\<lparr>updateFlagSeed := updateFlagSeed h + 1\<rparr>;
          h = set_mat h self (\<lambda>M. M\<lparr>updateFlag := stamp\<rparr>);
          h = set_mat h self (\<lambda>M. M\<lparr>isIdentity := False\<rparr>);
          h = set_mat h self (\<lambda>M. M\<lparr>isIdentity3x2 := False\<rparr>);
          h = set_mat h self (\<lambda>M. M\<lparr>isIdentityDirty := True\<rparr>);
          h = set_mat h self (\<lambda>M. M\<lparr>isIdentity3x2Dirty := True\<rparr>)
      in h)"

definition updateIdentityStatus :: "store \<Rightarrow> ref \<Rightarrow> bool \<Rightarrow> bool \<Rightarrow> bool \<Rightarrow> bool \<Rightarrow> store" where
  "updateIdentityStatus h self isIdentity' isIdentityDirty' isIdentity3x2' isIdentity3x2Dirty' =
     (let stamp = updateFlagSeed h;
          h = h\<lparr>updateFlagSeed := updateFlagSeed h + 1\<rparr>;
          h = set_mat h self (\<lambda>M. M\<lparr>updateFlag := stamp\<rparr>);
          h = set_mat h self (\<lambda>M. M\<lparr>isIdentity := isIdentity'\<rparr>);
          h = set_mat h self (\<lambda>M. M\<lparr>isIdentity3x2 := (isIdentity' \<or> isIdentity3x2')\<rparr>);
          h = set_mat h self (\<lambda>M. M\<lparr>isIdentityDirty := (if isIdentity M then False else isIdentityDirty')\<rparr>);
          h = set_mat h self (\<lambda>M. M\<lparr>isIdentity3x2Dirty := (if isIdentity3x2 M then False else isIdentity3x2Dirty')\<rparr>)
      in h)"

text \<open>
  \<open>create\<close>: the default arguments of \<open>_updateIdentityStatus\<close> are \<open>isIdentityDirty = false\<close>,
  \<open>isIdentity3x2 = false\<close>, \<open>isIdentity3x2Dirty = true\<close>.
\<close>

definition Matrix_create :: "store \<Rightarrow> ref \<times> store" where
  "Matrix_create h =
     (let newMatrix = length (matrices h);
          h = h\<lparr>matrices := matrices h @
                [\<lparr>updateFlag = 0, isIdentity = False, isIdentity3x2 = True,
                  isIdentityDirty = True, isIdentity3x2Dirty = True,
                  mData = [Fin 0, Fin 0, Fin 0, Fin 0, Fin 0, Fin 0, Fin 0, Fin 0,
                        Fin 0, Fin 0, Fin 0, Fin 0, Fin 0, Fin 0, Fin 0, Fin 0]\<rparr>]\<rparr>;
          h = updateIdentityStatus h newMatrix False False False True
      in (newMatrix, h))"

definition Matrix_fromValuesToRef ::
  "store \<Rightarrow> number \<Rightarrow> number \<Rightarrow> number \<Rightarrow> number \<Rightarrow> number \<Rightarrow> number \<Rightarrow> number \<Rightarrow> number \<Rightarrow> number \<Rightarrow> number \<Rightarrow> number \<Rightarrow> number \<Rightarrow> number \<Rightarrow> number \<Rightarrow> number \<Rightarrow> number \<Rightarrow> ref \<Rightarrow> store" where
  "Matrix_fromValuesToRef h initialM11 initialM12 initialM13 initialM14 initialM21 initialM22 initialM23 initialM24 initialM31 initialM32 initialM33 initialM34 initialM41 initialM42 initialM43 initialM44 result =
     (let
          h = set_m h result 0 initialM11;
          h = set_m h result 1 initialM12;
          h = set_m h result 2 initialM13;
          h = set_m h result 3 initialM14;
          h = set_m h result 4 initialM21;
          h = set_m h result 5 initialM22;
          h = set_m h result 6 initialM23;
          h = set_m h result 7 initialM24;
          h = set_m h result 8 initialM31;
          h = set_m h result 9 initialM32;
          h = set_m h result 10 initialM33;
          h = set_m h result 11 initialM34;
          h = set_m h result 12 initialM41;
          h = set_m h result 13 initialM42;
          h = set_m h result 14 initialM43;
          h = set_m h result 15 initialM44;
          h = markAsUpdated h result
      in h)"

definition Matrix_fromValues ::
  "store \<Rightarrow> number \<Rightarrow> number \<Rightarrow> number \<Rightarrow> number \<Rightarrow> number \<Rightarrow> number \<Rightarrow> number \<Rightarrow> number \<Rightarrow> number \<Rightarrow> number \<Rightarrow> number \<Rightarrow> number \<Rightarrow> number \<Rightarrow> number \<Rightarrow> number \<Rightarrow> number \<Rightarrow> ref \<times> store" where
  "Matrix_fromValues h initialM11 initialM12 initialM13 initialM14 initialM21 initialM22 initialM23 initialM24 initialM31 initialM32 initialM33 initialM34 initialM41 initialM42 initialM43 initialM44 =
     (let (result, h) = Matrix_create h;
          h = set_m h result 0 initialM11;
          h = set_m h result 1 initialM12;
          h = set_m h result 2 initialM13;
          h = set_m h result 3 initialM14;
          h = set_m h result 4 initialM21;
          h = set_m h result 5 initialM22;
          h = set_m h result 6 initialM23;
          h = set_m h result 7 initialM24;
          h = set_m h result 8 initialM31;
          h = set_m h result 9 initialM32;
          h = set_m h result 10 initialM33;
          h = set_m h result 11 initialM34;
          h = set_m h result 12 initialM41;
          h = set_m h result 13 initialM42;
          h = set_m h result 14 initialM43;
          h = set_m h result 15 initialM44;
          h = markAsUpdated h result
      in (result, h))"

definition Matrix_Identity :: "store \<Rightarrow> ref \<times> store" where
  "Matrix_Identity h =
     (let (identity, h) = Matrix_fromValues h
            (Fin 1) (Fin 0) (Fin 0) (Fin 0)
            (Fin 0) (Fin 1) (Fin 0) (Fin 0)
            (Fin 0) (Fin 0) (Fin 1) (Fin 0)
            (Fin 0) (Fin 0) (Fin 0) (Fin 1);
          h = updateIdentityStatus h identity True False False True
      in (identity, h))"

definition Matrix_IdentityToRef :: "store \<Rightarrow> ref \<Rightarrow> store" where
  "Matrix_IdentityToRef h result =
     (let h = Matrix_fromValuesToRef h
            (Fin 1) (Fin 0) (Fin 0) (Fin 0)
            (Fin 0) (Fin 1) (Fin 0) (Fin 0)
            (Fin 0) (Fin 0) (Fin 1) (Fin 0)
            (Fin 0) (Fin 0) (Fin 0) (Fin 1) result;
          h = updateIdentityStatus h result True False False True
      in h)"

text \<open>
  \<open>copyToArray\<close> with the element array of the matrix \<open>dest\<close> as its target array, which
  is how \<open>copy\<close> calls it: the loop \<open>for (index = 0; index < 16; index++)\<close>.
\<close>

definition Matrix_copyToArray :: "store \<Rightarrow> ref \<Rightarrow> ref \<Rightarrow> nat \<Rightarrow> store" where
  "Matrix_copyToArray h self dest offsetDest =
     fold (\<lambda>index h. set_m h dest (offsetDest + index) (mData (mat h self) ! index)) [0..<16] h"

definition Matrix_copy :: "store \<Rightarrow> ref \<Rightarrow> ref \<Rightarrow> store" where
  "Matrix_copy h from dest =
     (let h = Matrix_copyToArray h from dest 0
      in updateIdentityStatus h dest (isIdentity (mat h from)) (isIdentityDirty (mat h from))
           (isIdentity3x2 (mat h from)) (isIdentity3x2Dirty (mat h from)))"

definition Matrix_determinant :: "store \<Rightarrow> ref \<Rightarrow> number" where
  "Matrix_determinant h self =
     (if isIdentity (mat h self) = True then Fin 1
      else
        (let m = mData (mat h self);
             m00 = m ! 0; m01 = m ! 1; m02 = m ! 2; m03 = m ! 3;
             m10 = m ! 4; m11 = m ! 5; m12 = m ! 6; m13 = m ! 7;
             m20 = m ! 8; m21 = m ! 9; m22 = m ! 10; m23 = m ! 11;
             m30 = m ! 12; m31 = m ! 13; m32 = m ! 14; m33 = m ! 15;
             det_22_33 = m22 * m33 - m32 * m23;
             det_21_33 = m21 * m33 - m31 * m23;
             det_21_32 = m21 * m32 - m31 * m22;
             det_20_33 = m20 * m33 - m30 * m23;
             det_20_32 = m20 * m32 - m22 * m30;
             det_20_31 = m20 * m31 - m30 * m21;
             cofact_00 = (m11 * det_22_33 - m12 * det_21_33 + m13 * det_21_32);
             cofact_01 = - (m10 * det_22_33 - m12 * det_20_33 + m13 * det_20_32);
             cofact_02 = (m10 * det_21_33 - m11 * det_20_33 + m13 * det_20_31);
             cofact_03 = - (m10 * det_21_32 - m11 * det_20_32 + m12 * det_20_31)
         in m00 * cofact_00 + m01 * cofact_01 + m02 * cofact_02 + m03 * cofact_03))"

text \<open>\<open>Quaternion.fromRotationMatrixToRef\<close>, which \<open>decompose\<close> calls.\<close>

definition Quaternion_fromRotationMatrixToRef :: "store \<Rightarrow> ref \<Rightarrow> ref \<Rightarrow> store" where
  "Quaternion_fromRotationMatrixToRef h matrix result =
     (let data = mData (mat h matrix);
          m11 = data ! 0; m12 = data ! 4; m13 = data ! 8;
          m21 = data ! 1; m22 = data ! 5; m23 = data ! 9;
          m31 = data ! 2; m32 = data ! 6; m33 = data ! 10;
          trace = m11 + m22 + m33
      in if trace > Fin 0 then
           (let s = Fin (1 / 2) / Math_sqrt (trace + Fin 1);
                h = set_quat h result (\<lambda>q. q\<lparr>qw := Fin (1 / 4) / s\<rparr>);
                h = set_quat h result (\<lambda>q. q\<lparr>qx := (m32 - m23) * s\<rparr>);
                h = set_quat h result (\<lambda>q. q\<lparr>qy := (m13 - m31) * s\<rparr>);
                h = set_quat h result (\<lambda>q. q\<lparr>qz := (m21 - m12) * s\<rparr>)
            in h)
         else if m11 > m22 \<and> m11 > m33 then
           (let s = Fin 2 * Math_sqrt (Fin 1 + m11 - m22 - m33);
                h = set_quat h result (\<lambda>q. q\<lparr>qw := (m32 - m23) / s\<rparr>);
                h = set_quat h result (\<lambda>q. q\<lparr>qx := Fin (1 / 4) * s\<rparr>);
                h = set_quat h result (\<lambda>q. q\<lparr>qy := (m12 + m21) / s\<rparr>);
                h = set_quat h result (\<lambda>q. q\<lparr>qz := (m13 + m31) / s\<rparr>)
            in h)
         else if m22 > m33 then
           (let s = Fin 2 * Math_sqrt (Fin 1 + m22 - m11 - m33);
                h = set_quat h result (\<lambda>q. q\<lparr>qw := (m13 - m31) / s\<rparr>);
                h = set_quat h result (\<lambda>q. q\<lparr>qx := (m12 + m21) / s\<rparr>);
                h = set_quat h result (\<lambda>q. q\<lparr>qy := Fin (1 / 4) * s\<rparr>);
                h = set_quat h result (\<lambda>q. q\<lparr>qz := (m23 + m32) / s\<rparr>)
            in h)
         else
           (let s = Fin 2 * Math_sqrt (Fin 1 + m33 - m11 - m22);
                h = set_quat h result (\<lambda>q. q\<lparr>qw := (m21 - m12) / s\<rparr>);
                h = set_quat h result (\<lambda>q. q\<lparr>qx := (m13 + m31) / s\<rparr>);
                h = set_quat h result (\<lambda>q. q\<lparr>qy := (m23 + m32) / s\<rparr>);
                h = set_quat h result (\<lambda>q. q\<lparr>qz := Fin (1 / 4) * s\<rparr>)
            in h))"

text \<open>
  \<open>decompose\<close>. The three outputs are optional parameters: \<open>None\<close> is an omitted argument.
  \<open>translation = Vector3.create(...)\<close>, \<open>scale = Vector3.create(...)\<close> and
  \<open>rotation = Quaternion.create(...)\<close> create a new object and rebind the parameter to it;
  \<open>usedScale.x = ...\<close> writes a field of the object that \<open>usedScale\<close> names, which is the
  object of the caller when \<open>scale\<close> was given. The matrix \<open>self\<close> is not written by
  \<open>decompose\<close>, so its elements are read once into \<open>m\<close>.
\<close>

definition Matrix_decompose ::
  "store \<Rightarrow> ref \<Rightarrow> ref option \<Rightarrow> ref option \<Rightarrow> ref option \<Rightarrow> bool \<times> store" where
  "Matrix_decompose h self scale rotation translation =
     (if isIdentity (mat h self) then
        (let (translation, h) =
               (case translation of None \<Rightarrow> (None, h)
                | Some _ \<Rightarrow> (let (r, h) = Vector3_create h (Fin 0) (Fin 0) (Fin 0) in (Some r, h)));
             (scale, h) =
               (case scale of None \<Rightarrow> (None, h)
                | Some _ \<Rightarrow> (let (r, h) = Vector3_create h (Fin 0) (Fin 0) (Fin 0) in (Some r, h)));
             (rotation, h) =
               (case rotation of None \<Rightarrow> (None, h)
                | Some _ \<Rightarrow> (let (r, h) = Quaternion_create h (Fin 0) (Fin 0) (Fin 0) (Fin 1)
                            in (Some r, h)))
         in (True, h))
      else
        (let m = mData (mat h self);
             (translation, h) =
               (case translation of None \<Rightarrow> (None, h)
                | Some _ \<Rightarrow> (let (r, h) = Vector3_create h (m ! 12) (m ! 13) (m ! 14)
                            in (Some r, h)));
             (usedScale, h) = (case scale of Some s \<Rightarrow> (s, h) | None \<Rightarrow> Vector3_Zero h);
             h = set_vec h usedScale
                   (\<lambda>v. v\<lparr>vx := Math_sqrt (m ! 0 * m ! 0 + m ! 1 * m ! 1 + m ! 2 * m ! 2)\<rparr>);
             h = set_vec h usedScale
                   (\<lambda>v. v\<lparr>vy := Math_sqrt (m ! 4 * m ! 4 + m ! 5 * m ! 5 + m ! 6 * m ! 6)\<rparr>);
             h = set_vec h usedScale
                   (\<lambda>v. v\<lparr>vz := Math_sqrt (m ! 8 * m ! 8 + m ! 9 * m ! 9 + m ! 10 * m ! 10)\<rparr>);
             h = (if Matrix_determinant h self \<le> Fin 0
                  then set_vec h usedScale (\<lambda>v. v\<lparr>vy := vy v * Fin (- 1)\<rparr>) else h)
         in if strict_eq (vx (vec h usedScale)) (Fin 0) \<or> strict_eq (vy (vec h usedScale)) (Fin 0)
               \<or> strict_eq (vz (vec h usedScale)) (Fin 0)
            then
              (let (rotation, h) =
                     (case rotation of None \<Rightarrow> (None, h)
                      | Some _ \<Rightarrow> (let (r, h) = Quaternion_create h (Fin 0) (Fin 0) (Fin 0) (Fin 1)
                                  in (Some r, h)))
               in (False, h))
            else
              (case rotation of None \<Rightarrow> (True, h)
               | Some rotation \<Rightarrow>
                  (let sx = Fin 1 / vx (vec h usedScale);
                       sy = Fin 1 / vy (vec h usedScale);
                       sz = Fin 1 / vz (vec h usedScale);
                       (tmpMatrix, h) = Matrix_create h;
                       h = Matrix_fromValuesToRef h
                             (m ! 0 * sx) (m ! 1 * sx) (m ! 2 * sx) (Fin 0)
                             (m ! 4 * sy) (m ! 5 * sy) (m ! 6 * sy) (Fin 0)
                             (m ! 8 * sz) (m ! 9 * sz) (m ! 10 * sz) (Fin 0)
                             (Fin 0) (Fin 0) (Fin 0) (Fin 1) tmpMatrix;
                       h = Quaternion_fromRotationMatrixToRef h tmpMatrix rotation
                   in (True, h)))))"

text \<open>
  The scale that the description of \<open>decompose\<close> promises for a matrix: the Euclidean
  magnitudes of the three rows of the upper-left 3x3 block, the second one negated when
  the determinant is not positive.
\<close>

definition decomposed_scale :: "store \<Rightarrow> ref \<Rightarrow> vector3" where
  "decomposed_scale h self =
     \<lparr>vx = Math_sqrt (mData (mat h self) ! 0 * mData (mat h self) ! 0
                      + mData (mat h self) ! 1 * mData (mat h self) ! 1
                      + mData (mat h self) ! 2 * mData (mat h self) ! 2),
      vy = (if Matrix_determinant h self \<le> Fin 0
            then Math_sqrt (mData (mat h self) ! 4 * mData (mat h self) ! 4
                            + mData (mat h self) ! 5 * mData (mat h self) ! 5
                            + mData (mat h self) ! 6 * mData (mat h self) ! 6) * Fin (- 1)
            else Math_sqrt (mData (mat h self) ! 4 * mData (mat h self) ! 4
                            + mData (mat h self) ! 5 * mData (mat h self) ! 5
                            + mData (mat h self) ! 6 * mData (mat h self) ! 6)),
      vz = Math_sqrt (mData (mat h self) ! 8 * mData (mat h self) ! 8
                      + mData (mat h self) ! 9 * mData (mat h self) ! 9
                      + mData (mat h self) ! 10 * mData (mat h self) ! 10)\<rparr>"

text \<open>
  \<open>invertToRef\<close>. All elements of \<open>source\<close> are read into local constants before the
  first write to \<open>result\<close>, so the two may be the same matrix.
\<close>

definition Matrix_invertToRef :: "store \<Rightarrow> ref \<Rightarrow> ref \<Rightarrow> store" where
  "Matrix_invertToRef h source result =
     (if isIdentity (mat h source) = True then Matrix_copy h source result
      else
        (let m = mData (mat h source);
             m00 = m ! 0; m01 = m ! 1; m02 = m ! 2; m03 = m ! 3;
             m10 = m ! 4; m11 = m ! 5; m12 = m ! 6; m13 = m ! 7;
             m20 = m ! 8; m21 = m ! 9; m22 = m ! 10; m23 = m ! 11;
             m30 = m ! 12; m31 = m ! 13; m32 = m ! 14; m33 = m ! 15;
             det_22_33 = m22 * m33 - m32 * m23;
             det_21_33 = m21 * m33 - m31 * m23;
             det_21_32 = m21 * m32 - m31 * m22;
             det_20_33 = m20 * m33 - m30 * m23;
             det_20_32 = m20 * m32 - m22 * m30;
             det_20_31 = m20 * m31 - m30 * m21;
             cofact_00 = (m11 * det_22_33 - m12 * det_21_33 + m13 * det_21_32);
             cofact_01 = - (m10 * det_22_33 - m12 * det_20_33 + m13 * det_20_32);
             cofact_02 = (m10 * det_21_33 - m11 * det_20_33 + m13 * det_20_31);
             cofact_03 = - (m10 * det_21_32 - m11 * det_20_32 + m12 * det_20_31);
             det = m00 * cofact_00 + m01 * cofact_01 + m02 * cofact_02 + m03 * cofact_03
         in if strict_eq det (Fin 0) then Matrix_copy h source result
            else
              (let detInv = Fin 1 / det;
                   det_12_33 = m12 * m33 - m32 * m13;
                   det_11_33 = m11 * m33 - m31 * m13;
                   det_11_32 = m11 * m32 - m31 * m12;
                   det_10_33 = m10 * m33 - m30 * m13;
                   det_10_32 = m10 * m32 - m30 * m12;
                   det_10_31 = m10 * m31 - m30 * m11;
                   det_12_23 = m12 * m23 - m22 * m13;
                   det_11_23 = m11 * m23 - m21 * m13;
                   det_11_22 = m11 * m22 - m21 * m12;
                   det_10_23 = m10 * m23 - m20 * m13;
                   det_10_22 = m10 * m22 - m20 * m12;
                   det_10_21 = m10 * m21 - m20 * m11;
                   cofact_10 = - (m01 * det_22_33 - m02 * det_21_33 + m03 * det_21_32);
                   cofact_11 = (m00 * det_22_33 - m02 * det_20_33 + m03 * det_20_32);
                   cofact_12 = - (m00 * det_21_33 - m01 * det_20_33 + m03 * det_20_31);
                   cofact_13 = (m00 * det_21_32 - m01 * det_20_32 + m02 * det_20_31);
                   cofact_20 = (m01 * det_12_33 - m02 * det_11_33 + m03 * det_11_32);
                   cofact_21 = - (m00 * det_12_33 - m02 * det_10_33 + m03 * det_10_32);
                   cofact_22 = (m00 * det_11_33 - m01 * det_10_33 + m03 * det_10_31);
                   cofact_23 = - (m00 * det_11_32 - m01 * det_10_32 + m02 * det_10_31);
                   cofact_30 = - (m01 * det_12_23 - m02 * det_11_23 + m03 * det_11_22);
                   cofact_31 = (m00 * det_12_23 - m02 * det_10_23 + m03 * det_10_22);
                   cofact_32 = - (m00 * det_11_23 - m01 * det_10_23 + m03 * det_10_21);
                   cofact_33 = (m00 * det_11_22 - m01 * det_10_22 + m02 * det_10_21)
               in Matrix_fromValuesToRef h
                    (cofact_00 * detInv) (cofact_10 * detInv) (cofact_20 * detInv) (cofact_30 * detInv)
                    (cofact_01 * detInv) (cofact_11 * detInv) (cofact_21 * detInv) (cofact_31 * detInv)
                    (cofact_02 * detInv) (cofact_12 * detInv) (cofact_22 * detInv) (cofact_32 * detInv)
                    (cofact_03 * detInv) (cofact_13 * detInv) (cofact_23 * detInv) (cofact_33 * detInv)
                    result)))"

text \<open>
  \<open>getRotationMatrixToRef\<close>. On failure of \<open>decompose\<close>, \<open>result = Identity()\<close> creates an
  identity matrix and rebinds the parameter \<open>result\<close> to it, then returns.
\<close>

definition Matrix_getRotationMatrixToRef :: "store \<Rightarrow> ref \<Rightarrow> ref \<Rightarrow> store" where
  "Matrix_getRotationMatrixToRef h self result =
     (let (scale, h) = Vector3_Zero h;
          (ok, h) = Matrix_decompose h self (Some scale) None None
      in if \<not> ok then (let (result, h) = Matrix_Identity h in h)
         else
           (let m = mData (mat h self);
                sx = Fin 1 / vx (vec h scale);
                sy = Fin 1 / vy (vec h scale);
                sz = Fin 1 / vz (vec h scale)
            in Matrix_fromValuesToRef h
                 (m ! 0 * sx) (m ! 1 * sx) (m ! 2 * sx) (Fin 0)
                 (m ! 4 * sy) (m ! 5 * sy) (m ! 6 * sy) (Fin 0)
                 (m ! 8 * sz) (m ! 9 * sz) (m ! 10 * sz) (Fin 0)
                 (Fin 0) (Fin 0) (Fin 0) (Fin 1) result))"

section \<open>Stamping\<close>

text \<open>
  \<open>updateFlag\<close> is assigned in two places only, \<open>_markAsUpdated\<close> and
  \<open>_updateIdentityStatus\<close>, both as \<open>self.updateFlag = _updateFlagSeed++\<close>. \<open>create\<close> calls
  \<open>_updateIdentityStatus\<close> on the matrix it builds, and a function such as \<open>fromValuesToRef\<close>
  or \<open>copy\<close> writes elements of its target and then calls one of the two on it. Not every
  element write is followed by such a call: \<open>copyToArray\<close> and \<open>multiplyToArray\<close> write into
  an array they are handed, and that array can be the element array of a matrix, which
  \<open>m\<close>, \<open>toArray\<close> and \<open>asArray\<close> return. A run of the process, as far as stamps are
  concerned, is therefore any sequence of these events: a creation, an element write, or a
  call of one of the two stamping functions.
\<close>

datatype event =
    Create
  | Write ref nat number
  | MarkAsUpdated ref
  | UpdateIdentityStatus ref bool bool bool bool

fun perform :: "store \<Rightarrow> event \<Rightarrow> store" where
  "perform h Create = snd (Matrix_create h)"
| "perform h (Write r i v) = set_m h r i v"
| "perform h (MarkAsUpdated r) = markAsUpdated h r"
| "perform h (UpdateIdentityStatus r a b c e) = updateIdentityStatus h r a b c e"



fun run :: "store \<Rightarrow> event list \<Rightarrow> store" where
  "run h [] = h"
| "run h (e # es) = run (perform h e) es"




text \<open>Every stamp in the store was drawn from the counter: it is below the counter's value.\<close>

definition stamps_below_seed :: "store \<Rightarrow> bool" where
  "stamps_below_seed h \<longleftrightarrow> (\<forall>M \<in> set (matrices h). updateFlag M < updateFlagSeed h)"


section \<open>Concrete stores\<close>

definition empty_store :: store where
  "empty_store = \<lparr>vector3s = [], quaternions = [], planes = [], matrices = [], updateFlagSeed = 0\<rparr>"

text \<open>The store after \<open>Vector3.create(1, 0, 0)\<close> and \<open>Vector3.Zero()\<close>: vector 0 has length 1, vector 1 length 0.\<close>

definition axes_store :: store where
  "axes_store = snd (Vector3_Zero (snd (Vector3_create empty_store (Fin 1) (Fin 0) (Fin 0))))"

text \<open>
  The objects of the repository's test of \<open>decompose\<close> (\<open>test/matrix.spec.ts\<close>): the outputs
  \<open>tOut = Vector3.create(NaN, NaN, NaN)\<close> (vector 0), \<open>sOut = Vector3.create(NaN, NaN, NaN)\<close>
  (vector 1) and \<open>rOut = Quaternion.create(NaN, NaN, NaN, NaN)\<close> (quaternion 0), then
  \<open>Matrix.Identity()\<close> (matrix 0), \<open>Matrix.create()\<close> (matrix 1, all zeros) and
  \<open>Matrix.fromValues(2,0,0,0, 0,2,0,0, 0,0,2,0, 1,2,3,1)\<close> (matrix 2: scale 2, translation
  \<open>(1, 2, 3)\<close>).
\<close>

definition test_store :: store where
  "test_store =
     (let (tOut, h) = Vector3_create empty_store NaN NaN NaN;
          (sOut, h) = Vector3_create h NaN NaN NaN;
          (rOut, h) = Quaternion_create h NaN NaN NaN NaN;
          (identity, h) = Matrix_Identity h;
          (zero, h) = Matrix_create h;
          (scaled, h) = Matrix_fromValues h
             (Fin 2) (Fin 0) (Fin 0) (Fin 0)
             (Fin 0) (Fin 2) (Fin 0) (Fin 0)
             (Fin 0) (Fin 0) (Fin 2) (Fin 0)
             (Fin 1) (Fin 2) (Fin 3) (Fin 1)
      in h)"

text \<open>The store after \<open>Plane.create(2, 0, 0, 4)\<close>: plane 0, with vector 0 as its normal.\<close>

definition plane_store :: store where
  "plane_store = snd (Plane_create empty_store (Fin 2) (Fin 0) (Fin 0) (Fin 4))"

text \<open>
  The store after \<open>Quaternion.Zero()\<close> (quaternion 0), \<open>Quaternion.create(0, 0, 0, 1)\<close>
  (quaternion 1) and \<open>Quaternion.create(0, 0, 0, -1)\<close> (quaternion 2).
\<close>

definition quaternion_store :: store where
  "quaternion_store =
     (let (zero, h) = Quaternion_Zero empty_store;
          (a, h) = Quaternion_create h (Fin 0) (Fin 0) (Fin 0) (Fin 1);
          (b, h) = Quaternion_create h (Fin 0) (Fin 0) (Fin 0) (Fin (- 1))
      in h)"

section \<open>Reading the store after a write\<close>

lemma vec_set_vec [simp]:
  "vec (set_vec h r f) r' = (if r' = r \<and> r < length (vector3s h) then f (vec h r) else vec h r')"
  by (auto simp add: vec_def set_vec_def nth_list_update list_update_beyond)

lemma length_set_vec [simp]: "length (vector3s (set_vec h r f)) = length (vector3s h)"
  by (simp add: set_vec_def)

lemma vec_Vector3_create_old [simp]:
  "r < length (vector3s h) \<Longrightarrow> vec (snd (Vector3_create h x y z)) r = vec h r"
  by (simp add: Vector3_create_def vec_def nth_append)

lemma Vector3_copyFrom_dest:
  "dest < length (vector3s h) \<Longrightarrow> vec (Vector3_copyFrom h source dest) dest = vec h source"
  by (cases "source = dest") (simp_all add: Vector3_copyFrom_def Let_def vec_set_vec length_set_vec)

section \<open>Vector3.normalize\<close>

lemma Vector3_normalize_copies:
  assumes "Vector3_length h v = Fin 0 \<or> Vector3_length h v = Fin 1" and "v < length (vector3s h)"
  shows "vec (snd (Vector3_normalize h v)) (fst (Vector3_normalize h v)) = vec h v"
proof -
  obtain r h1 where c: "Vector3_create h (Fin 0) (Fin 0) (Fin 0) = (r, h1)" by force
  have r: "r = length (vector3s h)" and l1: "length (vector3s h1) = Suc (length (vector3s h))"
    and v1: "vec h1 v = vec h v"
    using c assms(2) by (auto simp: Vector3_create_def vec_def nth_append)
  have "strict_eq (Vector3_length h v) (Fin 0) \<or> strict_eq (Vector3_length h v) (Fin 1)"
    using assms(1) by (auto simp: strict_eq_def)
  then have "Vector3_normalize h v = (r, Vector3_copyFrom h1 v r)"
    by (simp add: Vector3_normalize_def Vector3_normalizeFromLength_def c
        Vector3_normalizeFromLengthToRef_def)
  then show ?thesis using Vector3_copyFrom_dest[of r h1 v] r l1 v1 by simp
qed

lemma Vector3_normalizeToRef_copies:
  assumes "Vector3_length h v = Fin 0 \<or> Vector3_length h v = Fin 1" and "r < length (vector3s h)"
  shows "vec (Vector3_normalizeToRef h v r) r = vec h v"
proof -
  have "strict_eq (Vector3_length h v) (Fin 0) \<or> strict_eq (Vector3_length h v) (Fin 1)"
    using assms(1) by (auto simp: strict_eq_def)
  then show ?thesis using assms(2)
    by (simp add: Vector3_normalizeToRef_def Vector3_normalizeFromLengthToRef_def
        Vector3_copyFrom_dest)
qed

lemma finite_vector3_obtain:
  assumes "finite_vector3 v"
  obtains x y z where "v = \<lparr>vx = Fin x, vy = Fin y, vz = Fin z\<rparr>"
proof -
  obtain x y z where "vx v = Fin x" "vy v = Fin y" "vz v = Fin z"
    using assms unfolding finite_vector3_def by (metis isFinite.elims(2))
  then have "v = \<lparr>vx = Fin x, vy = Fin y, vz = Fin z\<rparr>" by (cases v) simp
  then show ?thesis using that by blast
qed

lemma Vector3_normalize_finite:
  assumes "v < length (vector3s h)" and "finite_vector3 (vec h v)"
  shows "finite_vector3 (vec (snd (Vector3_normalize h v)) (fst (Vector3_normalize h v)))"
proof -
  obtain x y z where V: "vec h v = \<lparr>vx = Fin x, vy = Fin y, vz = Fin z\<rparr>"
    using assms(2) by (rule finite_vector3_obtain)
  have s: "\<not> x * x + y * y + z * z < 0"
    by (simp add: not_less add_nonneg_nonneg)
  have l: "Vector3_length h v = Fin (sqrt (x * x + y * y + z * z))"
    using s by (simp add: Vector3_length_def V)
  show ?thesis
  proof (cases "Vector3_length h v = Fin 0 \<or> Vector3_length h v = Fin 1")
    case True
    then show ?thesis
      using Vector3_normalize_copies[OF True assms(1)] assms(2) by simp
  next
    case False
    then have n: "sqrt (x * x + y * y + z * z) \<noteq> 0" using l by auto
    obtain r h1 where c: "Vector3_create h (Fin 0) (Fin 0) (Fin 0) = (r, h1)" by force
    have r: "r = length (vector3s h)" and l1: "length (vector3s h1) = Suc (length (vector3s h))"
      and v1: "vec h1 v = vec h v"
      using c assms(1) by (auto simp: Vector3_create_def vec_def nth_append)
    have "Vector3_normalize h v
        = (r, Vector3_scaleToRef h1 v (Fin 1 / Fin (sqrt (x * x + y * y + z * z))) r)"
      using False l
      by (simp add: Vector3_normalize_def Vector3_normalizeFromLength_def c
          Vector3_normalizeFromLengthToRef_def strict_eq_def)
    then show ?thesis
      using n r l1 v1 V assms(1)
      by (simp add: Vector3_scaleToRef_def Let_def finite_vector3_def)
  qed
qed

text \<open>
  C6. For a vector \<open>v\<close> whose length is exactly 0 or exactly 1, \<open>Vector3.normalize(v)\<close>
  returns a vector with the components of \<open>v\<close> and \<open>normalizeToRef(v, result)\<close> leaves the
  components of \<open>v\<close> in \<open>result\<close> (which may be \<open>v\<close> itself); and for every vector, no
  division that \<open>normalize\<close> executes has the divisor 0, so that a vector with finite
  components is normalized to one with finite components.
\<close>

theorem Vector3_normalize_degenerate:
  assumes "v < length (vector3s h)" and "result < length (vector3s h)"
  shows "(Vector3_length h v = Fin 0 \<or> Vector3_length h v = Fin 1 \<longrightarrow>
            vec (snd (Vector3_normalize h v)) (fst (Vector3_normalize h v)) = vec h v
          \<and> vec (Vector3_normalizeToRef h v result) result = vec h v)
       \<and> Fin 0 \<notin> set (Vector3_normalize_divisors h v)
       \<and> (finite_vector3 (vec h v) \<longrightarrow>
            finite_vector3 (vec (snd (Vector3_normalize h v)) (fst (Vector3_normalize h v))))"
  using assms
  by (auto simp add: Vector3_normalize_copies Vector3_normalizeToRef_copies Vector3_normalize_finite
      Vector3_normalize_divisors_def Vector3_normalizeFromLengthToRef_divisors_def strict_eq_def)

lemma axes_store_eq:
  "axes_store = \<lparr>vector3s = [\<lparr>vx = Fin 1, vy = Fin 0, vz = Fin 0\<rparr>, \<lparr>vx = Fin 0, vy = Fin 0, vz = Fin 0\<rparr>],
     quaternions = [], planes = [], matrices = [], updateFlagSeed = 0\<rparr>"
  by (simp add: axes_store_def empty_store_def Vector3_Zero_def Vector3_create_def)

theorem Vector3_normalize_degenerate_witness:
  "(0::nat) < length (vector3s axes_store) \<and> (1::nat) < length (vector3s axes_store)
   \<and> Vector3_length axes_store 0 = Fin 1 \<and> Vector3_length axes_store 1 = Fin 0
   \<and> vec (snd (Vector3_normalize axes_store 0)) (fst (Vector3_normalize axes_store 0))
       = \<lparr>vx = Fin 1, vy = Fin 0, vz = Fin 0\<rparr>
   \<and> vec (Vector3_normalizeToRef axes_store 0 0) 0 = \<lparr>vx = Fin 1, vy = Fin 0, vz = Fin 0\<rparr>
   \<and> vec (snd (Vector3_normalize axes_store 1)) (fst (Vector3_normalize axes_store 1))
       = \<lparr>vx = Fin 0, vy = Fin 0, vz = Fin 0\<rparr>
   \<and> vec (Vector3_normalizeToRef axes_store 1 0) 0 = \<lparr>vx = Fin 0, vy = Fin 0, vz = Fin 0\<rparr>
   \<and> Fin 0 \<notin> set (Vector3_normalize_divisors axes_store 0)
   \<and> finite_vector3 (vec axes_store 0)
   \<and> finite_vector3 (vec (snd (Vector3_normalize axes_store 0)) (fst (Vector3_normalize axes_store 0)))"
proof -
  have l: "(0::nat) < length (vector3s axes_store)" "(1::nat) < length (vector3s axes_store)"
    by (simp_all add: axes_store_eq)
  have n: "Vector3_length axes_store 0 = Fin 1" "Vector3_length axes_store 1 = Fin 0"
    by (simp_all add: axes_store_eq Vector3_length_def vec_def)
  have v: "vec axes_store 0 = \<lparr>vx = Fin 1, vy = Fin 0, vz = Fin 0\<rparr>"
    "vec axes_store 1 = \<lparr>vx = Fin 0, vy = Fin 0, vz = Fin 0\<rparr>"
    by (simp_all add: axes_store_eq vec_def)
  show ?thesis
    using Vector3_normalize_degenerate[OF l(1) l(1)] Vector3_normalize_degenerate[OF l(2) l(1)] l n v
    by (simp add: finite_vector3_def)
qed

section \<open>Quaternion.angleAxis\<close>

text \<open>
  C9. For every angle, \<open>Quaternion.angleAxis\<close> called with the zero vector as axis does
  exactly what \<open>Quaternion.Identity()\<close> does (it returns before any division), and the
  quaternion it returns is \<open>(0, 0, 0, 1)\<close>, whose components are all finite.
\<close>

theorem Quaternion_angleAxis_zero_axis:
  assumes "vec h axis = \<lparr>vx = Fin 0, vy = Fin 0, vz = Fin 0\<rparr>"
  shows "Quaternion_angleAxis h degress axis = Quaternion_Identity h
       \<and> quat (snd (Quaternion_angleAxis h degress axis)) (fst (Quaternion_angleAxis h degress axis))
           = \<lparr>qx = Fin 0, qy = Fin 0, qz = Fin 0, qw = Fin 1\<rparr>"
proof -
  have "Quaternion_angleAxis h degress axis = Quaternion_Identity h"
    using assms by (simp add: Quaternion_angleAxis_def Vector3_lengthSquared_def strict_eq_def)
  then show ?thesis
    by (simp add: Quaternion_Identity_def Quaternion_create_def quat_def)
qed

theorem Quaternion_angleAxis_zero_axis_witness:
  "vec axes_store 1 = \<lparr>vx = Fin 0, vy = Fin 0, vz = Fin 0\<rparr>
   \<and> quat (snd (Quaternion_angleAxis axes_store (Fin 90) 1)) (fst (Quaternion_angleAxis axes_store (Fin 90) 1))
       = \<lparr>qx = Fin 0, qy = Fin 0, qz = Fin 0, qw = Fin 1\<rparr>
   \<and> quat (snd (Quaternion_angleAxis axes_store NaN 1)) (fst (Quaternion_angleAxis axes_store NaN 1))
       = \<lparr>qx = Fin 0, qy = Fin 0, qz = Fin 0, qw = Fin 1\<rparr>"
proof -
  have v: "vec axes_store 1 = \<lparr>vx = Fin 0, vy = Fin 0, vz = Fin 0\<rparr>"
    by (simp add: axes_store_eq vec_def)
  show ?thesis
    using Quaternion_angleAxis_zero_axis[OF v, of "Fin 90", THEN conjunct2]
      Quaternion_angleAxis_zero_axis[OF v, of NaN, THEN conjunct2] v
    by simp
qed

section \<open>Sixteen-element arrays\<close>

lemma upt16: "[0..<16] = [0, 1, 2, 3, 4, 5, 6, 7, 8, 9, 10, 11, 12, 13, 14, 15::nat]"
  by code_simp

lemma less16_cases:
  assumes "(i::nat) < 16"
  shows "i \<in> {0, 1, 2, 3, 4, 5, 6, 7, 8, 9, 10, 11, 12, 13, 14, 15}"
proof -
  have "i \<in> {0..<16}" using assms by simp
  also have "{0..<16::nat} = {0, 1, 2, 3, 4, 5, 6, 7, 8, 9, 10, 11, 12, 13, 14, 15}"
    by (simp add: atLeastLessThan_nat_numeral atLeastLessThanSuc insert_commute)
  finally show ?thesis .
qed

lemma list16_update:
  assumes "length (xs::'a list) = 16"
  shows "xs[0 := a0, Suc 0 := a1, 2 := a2, 3 := a3, 4 := a4, 5 := a5, 6 := a6, 7 := a7,
            8 := a8, 9 := a9, 10 := a10, 11 := a11, 12 := a12, 13 := a13, 14 := a14, 15 := a15]
         = [a0, a1, a2, a3, a4, a5, a6, a7, a8, a9, a10, a11, a12, a13, a14, a15]"
    (is "?l = ?r")
proof (rule nth_equalityI)
  show "length ?l = length ?r" using assms by simp
next
  fix i assume "i < length ?l"
  then have "i \<in> {0, 1, 2, 3, 4, 5, 6, 7, 8, 9, 10, 11, 12, 13, 14, 15}"
    using assms less16_cases by simp
  then show "?l ! i = ?r ! i" using assms by (elim insertE emptyE) simp_all
qed

lemma list16_nth:
  assumes "length (xs::'a list) = 16"
  shows "[xs ! 0, xs ! Suc 0, xs ! 2, xs ! 3, xs ! 4, xs ! 5, xs ! 6, xs ! 7,
          xs ! 8, xs ! 9, xs ! 10, xs ! 11, xs ! 12, xs ! 13, xs ! 14, xs ! 15] = xs"
    (is "?l = _")
proof (rule nth_equalityI)
  show "length ?l = length xs" using assms by simp
next
  fix i assume "i < length ?l"
  then have "i \<in> {0, 1, 2, 3, 4, 5, 6, 7, 8, 9, 10, 11, 12, 13, 14, 15}"
    using less16_cases by simp
  then show "?l ! i = xs ! i" by (elim insertE emptyE) simp_all
qed


section \<open>Matrix writes on an explicit store\<close>

lemma set_mat_last:
  "set_mat \<lparr>vector3s = vs, quaternions = qs, planes = ps, matrices = ms @ [M], updateFlagSeed = s\<rparr> (length ms) f
     = \<lparr>vector3s = vs, quaternions = qs, planes = ps, matrices = ms @ [f M], updateFlagSeed = s\<rparr>"
  by (simp add: set_mat_def)

lemma set_m_last:
  "set_m \<lparr>vector3s = vs, quaternions = qs, planes = ps, matrices = ms @ [M], updateFlagSeed = s\<rparr> (length ms) i v
     = \<lparr>vector3s = vs, quaternions = qs, planes = ps,
        matrices = ms @ [M\<lparr>mData := (mData M)[i := v]\<rparr>], updateFlagSeed = s\<rparr>"
  by (simp add: set_m_def set_mat_last)

lemma markAsUpdated_last:
  "markAsUpdated \<lparr>vector3s = vs, quaternions = qs, planes = ps, matrices = ms @ [M], updateFlagSeed = s\<rparr> (length ms) =
     \<lparr>vector3s = vs, quaternions = qs, planes = ps,
      matrices = ms @ [M\<lparr>updateFlag := s, isIdentity := False, isIdentity3x2 := False,
            isIdentityDirty := True, isIdentity3x2Dirty := True\<rparr>],
      updateFlagSeed = s + 1\<rparr>"
  by (simp add: markAsUpdated_def set_mat_def Let_def)

lemma updateIdentityStatus_last:
  "updateIdentityStatus \<lparr>vector3s = vs, quaternions = qs, planes = ps, matrices = ms @ [M], updateFlagSeed = s\<rparr> (length ms) a b c e =
     \<lparr>vector3s = vs, quaternions = qs, planes = ps,
      matrices = ms @ [M\<lparr>updateFlag := s, isIdentity := a, isIdentity3x2 := (a \<or> c),
            isIdentityDirty := (if a then False else b), isIdentity3x2Dirty := (if a \<or> c then False else e)\<rparr>],
      updateFlagSeed = s + 1\<rparr>"
  by (simp add: updateIdentityStatus_def set_mat_def Let_def)

lemma Matrix_create_eq:
  "Matrix_create \<lparr>vector3s = vs, quaternions = qs, planes = ps, matrices = ms, updateFlagSeed = s\<rparr> = (length ms,
     \<lparr>vector3s = vs, quaternions = qs, planes = ps, matrices = ms @
        [\<lparr>updateFlag = s, isIdentity = False, isIdentity3x2 = False,
          isIdentityDirty = False, isIdentity3x2Dirty = True,
          mData = [Fin 0, Fin 0, Fin 0, Fin 0, Fin 0, Fin 0, Fin 0, Fin 0,
                   Fin 0, Fin 0, Fin 0, Fin 0, Fin 0, Fin 0, Fin 0, Fin 0]\<rparr>],
       updateFlagSeed = s + 1\<rparr>)"
  by (simp add: Matrix_create_def updateIdentityStatus_last)

lemma Matrix_fromValues_eq:
  "Matrix_fromValues \<lparr>vector3s = vs, quaternions = qs, planes = ps, matrices = ms, updateFlagSeed = s\<rparr>
      a0 a1 a2 a3 a4 a5 a6 a7 a8 a9 a10 a11 a12 a13 a14 a15 = (length ms,
     \<lparr>vector3s = vs, quaternions = qs, planes = ps, matrices = ms @
        [\<lparr>updateFlag = s + 1, isIdentity = False, isIdentity3x2 = False,
          isIdentityDirty = True, isIdentity3x2Dirty = True,
          mData = [a0, a1, a2, a3, a4, a5, a6, a7, a8, a9, a10, a11, a12, a13, a14, a15]\<rparr>],
       updateFlagSeed = s + 2\<rparr>)"
  by (simp add: Matrix_fromValues_def Matrix_create_eq set_m_last markAsUpdated_last)

lemma Matrix_Identity_eq:
  "Matrix_Identity \<lparr>vector3s = vs, quaternions = qs, planes = ps, matrices = ms, updateFlagSeed = s\<rparr> = (length ms,
     \<lparr>vector3s = vs, quaternions = qs, planes = ps, matrices = ms @
        [\<lparr>updateFlag = s + 2, isIdentity = True, isIdentity3x2 = True,
          isIdentityDirty = False, isIdentity3x2Dirty = False,
          mData = [Fin 1, Fin 0, Fin 0, Fin 0, Fin 0, Fin 1, Fin 0, Fin 0,
                   Fin 0, Fin 0, Fin 1, Fin 0, Fin 0, Fin 0, Fin 0, Fin 1]\<rparr>],
       updateFlagSeed = s + 3\<rparr>)"
  by (simp add: Matrix_Identity_def Matrix_fromValues_eq updateIdentityStatus_last)

section \<open>Matrix.copy\<close>

lemma copy_loop_self:
  "fold (\<lambda>index h. set_m h dest index (mData (mat h dest) ! index)) is h = h"
  by (induction "is" arbitrary: h) (simp_all add: set_m_def set_mat_def mat_def)

lemma copy_loop_other:
  assumes "from \<noteq> dest" and "dest < length (matrices h)"
  shows "fold (\<lambda>index h. set_m h dest index (mData (mat h from) ! index)) is h
       = set_mat h dest (\<lambda>M. M\<lparr>mData := fold (\<lambda>i xs. xs[i := mData (mat h from) ! i]) is (mData M)\<rparr>)"
  using assms
proof (induction "is" arbitrary: h)
  case Nil
  then show ?case by (simp add: set_mat_def)
next
  case (Cons i "is")
  let ?h1 = "set_m h dest i (mData (mat h from) ! i)"
  have l: "dest < length (matrices ?h1)" using Cons.prems by (simp add: set_m_def set_mat_def)
  have f: "mat ?h1 from = mat h from" using Cons.prems by (simp add: set_m_def set_mat_def mat_def)
  show ?case
    using Cons.prems by (simp add: Cons.IH[OF Cons.prems(1) l] f) (simp add: set_m_def set_mat_def)
qed

lemma Matrix_copyToArray_data:
  assumes "dest < length (matrices h)"
    and "length (mData (mat h from)) = 16" and "length (mData (mat h dest)) = 16"
  shows "Matrix_copyToArray h from dest 0 = set_mat h dest (\<lambda>M. M\<lparr>mData := mData (mat h from)\<rparr>)"
proof (cases "from = dest")
  case True
  have "Matrix_copyToArray h from dest 0 = h"
    unfolding Matrix_copyToArray_def True by (simp add: copy_loop_self)
  then show ?thesis using True
    by (simp add: set_mat_def mat_def)
next
  case False
  have "fold (\<lambda>i xs. xs[i := mData (mat h from) ! i]) [0..<16] (mData (mat h dest)) = mData (mat h from)"
    by (simp add: upt16 list16_update[OF assms(3)] list16_nth[OF assms(2)])
  then have "fold (\<lambda>i xs. xs[i := mData (mat h from) ! i]) [0..<16] (mData (matrices h ! dest)) = mData (mat h from)"
    by (simp add: mat_def)
  moreover have "Matrix_copyToArray h from dest 0 =
     set_mat h dest (\<lambda>M. M\<lparr>mData := fold (\<lambda>i xs. xs[i := mData (mat h from) ! i]) [0..<16] (mData M)\<rparr>)"
    unfolding Matrix_copyToArray_def using copy_loop_other[OF False assms(1)] by simp
  ultimately show ?thesis
    by (simp add: set_mat_def)
qed

lemma mat_updateIdentityStatus_data:
  "mData (mat (updateIdentityStatus h r a b c e) r') = mData (mat h r')"
  by (cases "r < length (matrices h)"; cases "r' = r")
     (simp_all add: updateIdentityStatus_def Let_def set_mat_def mat_def list_update_beyond)

lemma Matrix_copy_data:
  assumes "dest < length (matrices h)"
    and "length (mData (mat h from)) = 16" and "length (mData (mat h dest)) = 16"
  shows "mData (mat (Matrix_copy h from dest) dest) = mData (mat h from)"
  using assms(1)
  by (simp add: Matrix_copy_def Let_def mat_updateIdentityStatus_data
      Matrix_copyToArray_data[OF assms]) (simp add: set_mat_def mat_def)


lemma test_store_eq:
  "test_store =
     \<lparr>vector3s = [\<lparr>vx = NaN, vy = NaN, vz = NaN\<rparr>, \<lparr>vx = NaN, vy = NaN, vz = NaN\<rparr>],
      quaternions = [\<lparr>qx = NaN, qy = NaN, qz = NaN, qw = NaN\<rparr>],
      planes = [],
      matrices =
        [\<lparr>updateFlag = 2, isIdentity = True, isIdentity3x2 = True,
          isIdentityDirty = False, isIdentity3x2Dirty = False,
          mData = [Fin 1, Fin 0, Fin 0, Fin 0, Fin 0, Fin 1, Fin 0, Fin 0,
                   Fin 0, Fin 0, Fin 1, Fin 0, Fin 0, Fin 0, Fin 0, Fin 1]\<rparr>,
         \<lparr>updateFlag = 3, isIdentity = False, isIdentity3x2 = False,
          isIdentityDirty = False, isIdentity3x2Dirty = True,
          mData = [Fin 0, Fin 0, Fin 0, Fin 0, Fin 0, Fin 0, Fin 0, Fin 0,
                   Fin 0, Fin 0, Fin 0, Fin 0, Fin 0, Fin 0, Fin 0, Fin 0]\<rparr>,
         \<lparr>updateFlag = 5, isIdentity = False, isIdentity3x2 = False,
          isIdentityDirty = True, isIdentity3x2Dirty = True,
          mData = [Fin 2, Fin 0, Fin 0, Fin 0, Fin 0, Fin 2, Fin 0, Fin 0,
                   Fin 0, Fin 0, Fin 2, Fin 0, Fin 1, Fin 2, Fin 3, Fin 1]\<rparr>],
      updateFlagSeed = 6\<rparr>"
  by (simp add: test_store_def empty_store_def Vector3_create_def Quaternion_create_def
      Matrix_Identity_eq Matrix_create_eq Matrix_fromValues_eq)

section \<open>Matrix.invertToRef\<close>

lemma Matrix_invertToRef_singular:
  assumes "Matrix_determinant h source = Fin 0"
  shows "Matrix_invertToRef h source result = Matrix_copy h source result"
proof -
  have n: "\<not> isIdentity (mat h source)"
    using assms by (auto simp: Matrix_determinant_def)
  show ?thesis
    using assms n
    by (simp add: Matrix_invertToRef_def Matrix_determinant_def Let_def strict_eq_def)
qed

text \<open>
  C5. \<open>invertToRef\<close> is \<open>copy(source, result)\<close> whenever the \<open>isIdentity\<close> flag of the source
  is true, and whenever the determinant of the source is exactly 0; and after
  \<open>copy(source, result)\<close> the sixteen elements of \<open>result\<close> are those of the source, so no
  element is the result of a division by the zero determinant.
\<close>

theorem Matrix_invertToRef_fallback:
  assumes "result < length (matrices h)"
    and "length (mData (mat h source)) = 16" and "length (mData (mat h result)) = 16"
  shows "(isIdentity (mat h source) \<or> Matrix_determinant h source = Fin 0 \<longrightarrow>
            Matrix_invertToRef h source result = Matrix_copy h source result
          \<and> mData (mat (Matrix_invertToRef h source result) result) = mData (mat h source))"
proof (intro impI)
  assume "isIdentity (mat h source) \<or> Matrix_determinant h source = Fin 0"
  then have "Matrix_invertToRef h source result = Matrix_copy h source result"
    by (auto simp: Matrix_invertToRef_singular) (simp add: Matrix_invertToRef_def)
  then show "Matrix_invertToRef h source result = Matrix_copy h source result
      \<and> mData (mat (Matrix_invertToRef h source result) result) = mData (mat h source)"
    by (simp add: Matrix_copy_data[OF assms])
qed

theorem Matrix_invertToRef_fallback_witness:
  "(1::nat) < length (matrices test_store)
   \<and> isIdentity (mat test_store 0) \<and> Matrix_determinant test_store 1 = Fin 0
   \<and> mData (mat (Matrix_invertToRef test_store 0 1) 1)
       = [Fin 1, Fin 0, Fin 0, Fin 0, Fin 0, Fin 1, Fin 0, Fin 0,
          Fin 0, Fin 0, Fin 1, Fin 0, Fin 0, Fin 0, Fin 0, Fin 1]
   \<and> mData (mat (Matrix_invertToRef test_store 1 1) 1)
       = [Fin 0, Fin 0, Fin 0, Fin 0, Fin 0, Fin 0, Fin 0, Fin 0,
          Fin 0, Fin 0, Fin 0, Fin 0, Fin 0, Fin 0, Fin 0, Fin 0]"
proof -
  have l: "(1::nat) < length (matrices test_store)"
    and l0: "length (mData (mat test_store 0)) = 16" and l1: "length (mData (mat test_store 1)) = 16"
    and i: "isIdentity (mat test_store 0)"
    and m0: "mData (mat test_store 0) = [Fin 1, Fin 0, Fin 0, Fin 0, Fin 0, Fin 1, Fin 0, Fin 0,
          Fin 0, Fin 0, Fin 1, Fin 0, Fin 0, Fin 0, Fin 0, Fin 1]"
    and m1: "mData (mat test_store 1) = [Fin 0, Fin 0, Fin 0, Fin 0, Fin 0, Fin 0, Fin 0, Fin 0,
          Fin 0, Fin 0, Fin 0, Fin 0, Fin 0, Fin 0, Fin 0, Fin 0]"
    by (simp_all add: test_store_eq mat_def)
  have "\<not> isIdentity (mat test_store 1)"
    by (simp add: test_store_eq mat_def)
  then have d: "Matrix_determinant test_store 1 = Fin 0"
    unfolding Matrix_determinant_def Let_def using m1 by (simp add: minus_number_def)
  have a: "mData (mat (Matrix_invertToRef test_store 0 1) 1) = mData (mat test_store 0)"
    using Matrix_invertToRef_fallback[OF l l0 l1] i by blast
  have b: "mData (mat (Matrix_invertToRef test_store 1 1) 1) = mData (mat test_store 1)"
    using Matrix_invertToRef_fallback[OF l l1 l1] d by blast
  show ?thesis
    using a b l i d m0 m1 by simp
qed

section \<open>What a write leaves alone\<close>

lemma set_vec_frame [simp]:
  "quaternions (set_vec h r f) = quaternions h" "planes (set_vec h r f) = planes h"
  "matrices (set_vec h r f) = matrices h" "updateFlagSeed (set_vec h r f) = updateFlagSeed h"
  "mat (set_vec h r f) = mat h" "quat (set_vec h r f) = quat h"
  by (simp_all add: set_vec_def mat_def quat_def fun_eq_iff)

lemma set_quat_frame [simp]:
  "vector3s (set_quat h r f) = vector3s h" "planes (set_quat h r f) = planes h"
  "matrices (set_quat h r f) = matrices h" "updateFlagSeed (set_quat h r f) = updateFlagSeed h"
  "mat (set_quat h r f) = mat h" "vec (set_quat h r f) = vec h"
  by (simp_all add: set_quat_def mat_def vec_def fun_eq_iff)

lemma set_mat_frame [simp]:
  "vector3s (set_mat h r f) = vector3s h" "planes (set_mat h r f) = planes h"
  "quaternions (set_mat h r f) = quaternions h" "updateFlagSeed (set_mat h r f) = updateFlagSeed h"
  "quat (set_mat h r f) = quat h" "vec (set_mat h r f) = vec h"
  "length (matrices (set_mat h r f)) = length (matrices h)"
  by (simp_all add: set_mat_def quat_def vec_def fun_eq_iff)

lemma set_m_frame [simp]:
  "vector3s (set_m h r i v) = vector3s h" "planes (set_m h r i v) = planes h"
  "quaternions (set_m h r i v) = quaternions h" "updateFlagSeed (set_m h r i v) = updateFlagSeed h"
  "quat (set_m h r i v) = quat h" "vec (set_m h r i v) = vec h"
  "length (matrices (set_m h r i v)) = length (matrices h)"
  by (simp_all add: set_m_def)

lemma mat_set_mat_other [simp]: "r' \<noteq> r \<Longrightarrow> mat (set_mat h r f) r' = mat h r'"
  by (simp add: set_mat_def mat_def)

lemma mat_set_m_other [simp]: "r' \<noteq> r \<Longrightarrow> mat (set_m h r i v) r' = mat h r'"
  by (simp add: set_m_def)

lemma markAsUpdated_frame [simp]:
  "vector3s (markAsUpdated h r) = vector3s h" "planes (markAsUpdated h r) = planes h"
  "quaternions (markAsUpdated h r) = quaternions h"
  "quat (markAsUpdated h r) = quat h" "vec (markAsUpdated h r) = vec h"
  "length (matrices (markAsUpdated h r)) = length (matrices h)"
  "r' \<noteq> r \<Longrightarrow> mat (markAsUpdated h r) r' = mat h r'"
  by (simp_all add: markAsUpdated_def Let_def quat_def vec_def mat_def set_mat_def fun_eq_iff)

lemma updateIdentityStatus_frame [simp]:
  "vector3s (updateIdentityStatus h r a b c e) = vector3s h" "planes (updateIdentityStatus h r a b c e) = planes h"
  "quaternions (updateIdentityStatus h r a b c e) = quaternions h"
  "quat (updateIdentityStatus h r a b c e) = quat h" "vec (updateIdentityStatus h r a b c e) = vec h"
  "length (matrices (updateIdentityStatus h r a b c e)) = length (matrices h)"
  "r' \<noteq> r \<Longrightarrow> mat (updateIdentityStatus h r a b c e) r' = mat h r'"
  by (simp_all add: updateIdentityStatus_def Let_def quat_def vec_def mat_def set_mat_def fun_eq_iff)

lemma Vector3_create_frame [simp]:
  "fst (Vector3_create h x y z) = length (vector3s h)"
  "vector3s (snd (Vector3_create h x y z)) = vector3s h @ [\<lparr>vx = x, vy = y, vz = z\<rparr>]"
  "quaternions (snd (Vector3_create h x y z)) = quaternions h" "planes (snd (Vector3_create h x y z)) = planes h"
  "matrices (snd (Vector3_create h x y z)) = matrices h" "updateFlagSeed (snd (Vector3_create h x y z)) = updateFlagSeed h"
  "mat (snd (Vector3_create h x y z)) = mat h" "quat (snd (Vector3_create h x y z)) = quat h"
  by (simp_all add: Vector3_create_def mat_def quat_def fun_eq_iff)

lemma Quaternion_create_frame [simp]:
  "fst (Quaternion_create h x y z w) = length (quaternions h)"
  "quaternions (snd (Quaternion_create h x y z w)) = quaternions h @ [\<lparr>qx = x, qy = y, qz = z, qw = w\<rparr>]"
  "vector3s (snd (Quaternion_create h x y z w)) = vector3s h" "planes (snd (Quaternion_create h x y z w)) = planes h"
  "matrices (snd (Quaternion_create h x y z w)) = matrices h" "updateFlagSeed (snd (Quaternion_create h x y z w)) = updateFlagSeed h"
  "mat (snd (Quaternion_create h x y z w)) = mat h" "vec (snd (Quaternion_create h x y z w)) = vec h"
  by (simp_all add: Quaternion_create_def mat_def vec_def fun_eq_iff)

lemma Matrix_create_frame [simp]:
  "fst (Matrix_create h) = length (matrices h)"
  "vector3s (snd (Matrix_create h)) = vector3s h" "planes (snd (Matrix_create h)) = planes h"
  "quaternions (snd (Matrix_create h)) = quaternions h"
  "quat (snd (Matrix_create h)) = quat h" "vec (snd (Matrix_create h)) = vec h"
  "length (matrices (snd (Matrix_create h))) = Suc (length (matrices h))"
  by (simp_all add: Matrix_create_def Let_def quat_def vec_def fun_eq_iff)

lemma mat_Matrix_create_old [simp]:
  "r < length (matrices h) \<Longrightarrow> mat (snd (Matrix_create h)) r = mat h r"
  by (simp add: Matrix_create_def Let_def) (simp add: mat_def nth_append)

lemma Matrix_fromValuesToRef_frame [simp]:
  "vector3s (Matrix_fromValuesToRef h a0 a1 a2 a3 a4 a5 a6 a7 a8 a9 a10 a11 a12 a13 a14 a15 r) = vector3s h"
  "quaternions (Matrix_fromValuesToRef h a0 a1 a2 a3 a4 a5 a6 a7 a8 a9 a10 a11 a12 a13 a14 a15 r) = quaternions h"
  "planes (Matrix_fromValuesToRef h a0 a1 a2 a3 a4 a5 a6 a7 a8 a9 a10 a11 a12 a13 a14 a15 r) = planes h"
  "vec (Matrix_fromValuesToRef h a0 a1 a2 a3 a4 a5 a6 a7 a8 a9 a10 a11 a12 a13 a14 a15 r) = vec h"
  "quat (Matrix_fromValuesToRef h a0 a1 a2 a3 a4 a5 a6 a7 a8 a9 a10 a11 a12 a13 a14 a15 r) = quat h"
  "length (matrices (Matrix_fromValuesToRef h a0 a1 a2 a3 a4 a5 a6 a7 a8 a9 a10 a11 a12 a13 a14 a15 r)) = length (matrices h)"
  "r' \<noteq> r \<Longrightarrow> mat (Matrix_fromValuesToRef h a0 a1 a2 a3 a4 a5 a6 a7 a8 a9 a10 a11 a12 a13 a14 a15 r) r' = mat h r'"
  unfolding Matrix_fromValuesToRef_def Let_def by simp_all

lemma Quaternion_fromRotationMatrixToRef_frame [simp]:
  "vector3s (Quaternion_fromRotationMatrixToRef h m r) = vector3s h"
  "matrices (Quaternion_fromRotationMatrixToRef h m r) = matrices h"
  "planes (Quaternion_fromRotationMatrixToRef h m r) = planes h"
  "vec (Quaternion_fromRotationMatrixToRef h m r) = vec h"
  "mat (Quaternion_fromRotationMatrixToRef h m r) = mat h"
  unfolding Quaternion_fromRotationMatrixToRef_def Let_def by simp_all

lemma Matrix_determinant_cong:
  "mat h' = mat h \<Longrightarrow> Matrix_determinant h' self = Matrix_determinant h self"
  unfolding Matrix_determinant_def Let_def by simp

lemma vec_Vector3_create_new [simp]:
  "vec (snd (Vector3_create h x y z)) (length (vector3s h)) = \<lparr>vx = x, vy = y, vz = z\<rparr>"
  by (simp add: Vector3_create_def vec_def)

lemma det_frames [simp]:
  "Matrix_determinant (set_vec h r f) self = Matrix_determinant h self"
  "Matrix_determinant (snd (Vector3_create h x y z)) self = Matrix_determinant h self"
  by (rule Matrix_determinant_cong, simp)+

section \<open>Matrix.decompose\<close>

lemma decompose_matrices_no_rotation:
  "matrices (snd (Matrix_decompose h self scale None translation)) = matrices h"
  by (cases translation; cases scale)
     (simp_all add: Matrix_decompose_def Let_def split_beta Vector3_Zero_def)

lemma decompose_scale:
  assumes "\<not> isIdentity (mat h self)" and "s < length (vector3s h)"
  shows "vec (snd (Matrix_decompose h self (Some s) rotation translation)) s = decomposed_scale h self"
  using assms
  by (cases rotation; cases translation)
     (simp_all add: Matrix_decompose_def Let_def split_beta decomposed_scale_def)

lemma decompose_ok:
  assumes "\<not> isIdentity (mat h self)" and "s < length (vector3s h)"
  shows "fst (Matrix_decompose h self (Some s) rotation translation) \<longleftrightarrow>
     \<not> (strict_eq (vx (decomposed_scale h self)) (Fin 0) \<or> strict_eq (vy (decomposed_scale h self)) (Fin 0)
        \<or> strict_eq (vz (decomposed_scale h self)) (Fin 0))"
  using assms
  by (cases rotation; cases translation)
     (simp_all add: Matrix_decompose_def Let_def split_beta decomposed_scale_def)

lemma decompose_translation_untouched:
  assumes "t < length (vector3s h)" and "scale \<noteq> Some t"
  shows "vec (snd (Matrix_decompose h self scale rotation translation)) t = vec h t"
  using assms
  by (cases rotation; cases translation; cases scale)
     (simp_all add: Matrix_decompose_def Let_def split_beta Vector3_Zero_def)

lemma mat_Matrix_Identity_old:
  assumes "r < length (matrices h)"
  shows "mat (snd (Matrix_Identity h)) r = mat h r"
proof (cases h)
  case (fields vs qs ps ms s)
  then show ?thesis using assms
    by (simp add: Matrix_Identity_eq mat_def nth_append)
qed

lemma Vector3_Zero_frame [simp]:
  "fst (Vector3_Zero h) = length (vector3s h)"
  "matrices (snd (Vector3_Zero h)) = matrices h"
  "mat (snd (Vector3_Zero h)) = mat h"
  "length (vector3s (snd (Vector3_Zero h))) = Suc (length (vector3s h))"
  by (simp_all add: Vector3_Zero_def)

lemma decompose_identity_general:
  assumes "isIdentity (mat h self)"
  shows "fst (Matrix_decompose h self scale rotation translation) = True"
    and "r < length (vector3s h) \<Longrightarrow> vec (snd (Matrix_decompose h self scale rotation translation)) r = vec h r"
    and "q < length (quaternions h) \<Longrightarrow> quat (snd (Matrix_decompose h self scale rotation translation)) q = quat h q"
    and "matrices (snd (Matrix_decompose h self scale rotation translation)) = matrices h"
  using assms
  by (cases scale; cases rotation; cases translation;
      simp add: Matrix_decompose_def Let_def Vector3_create_def Quaternion_create_def vec_def quat_def nth_append)+


lemma decompose_fails_iff:
  assumes "s < length (vector3s h)"
  shows "\<not> fst (Matrix_decompose h self (Some s) rotation translation) \<longleftrightarrow>
     \<not> isIdentity (mat h self) \<and>
     (strict_eq (vx (decomposed_scale h self)) (Fin 0) \<or> strict_eq (vy (decomposed_scale h self)) (Fin 0)
        \<or> strict_eq (vz (decomposed_scale h self)) (Fin 0))"
proof (cases "isIdentity (mat h self)")
  case True
  then show ?thesis by (simp add: decompose_identity_general(1))
next
  case False
  then show ?thesis using decompose_ok[OF False assms] by simp
qed


lemma test_store_facts:
  "length (vector3s test_store) = 2" "length (quaternions test_store) = 1"
  "length (matrices test_store) = 3"
  "vec test_store 0 = \<lparr>vx = NaN, vy = NaN, vz = NaN\<rparr>"
  "vec test_store (Suc 0) = \<lparr>vx = NaN, vy = NaN, vz = NaN\<rparr>"
  "quat test_store 0 = \<lparr>qx = NaN, qy = NaN, qz = NaN, qw = NaN\<rparr>"
  "isIdentity (mat test_store 0)" "\<not> isIdentity (mat test_store (Suc 0))" "\<not> isIdentity (mat test_store 2)"
  "mData (mat test_store 0) = [Fin 1, Fin 0, Fin 0, Fin 0, Fin 0, Fin 1, Fin 0, Fin 0,
                   Fin 0, Fin 0, Fin 1, Fin 0, Fin 0, Fin 0, Fin 0, Fin 1]"
  "mData (mat test_store (Suc 0)) = [Fin 0, Fin 0, Fin 0, Fin 0, Fin 0, Fin 0, Fin 0, Fin 0,
                   Fin 0, Fin 0, Fin 0, Fin 0, Fin 0, Fin 0, Fin 0, Fin 0]"
  "mData (mat test_store 2) = [Fin 2, Fin 0, Fin 0, Fin 0, Fin 0, Fin 2, Fin 0, Fin 0,
                   Fin 0, Fin 0, Fin 2, Fin 0, Fin 1, Fin 2, Fin 3, Fin 1]"
  by (simp_all add: test_store_eq vec_def quat_def mat_def)

text \<open>
  C1. The identity case of the repository's own test: \<open>decompose(Matrix.Identity(), sOut,
  rOut, tOut)\<close> returns true and leaves \<open>tOut\<close>, \<open>sOut\<close> and \<open>rOut\<close> as they were (all
  \<open>NaN\<close>); neither the translation nor the scale output holds \<open>(0, 0, 0)\<close> afterwards.
\<close>

theorem Matrix_decompose_identity_outputs_unwritten:
  "fst (Matrix_decompose test_store 0 (Some 1) (Some 0) (Some 0)) = True
   \<and> vec (snd (Matrix_decompose test_store 0 (Some 1) (Some 0) (Some 0))) 0
       = \<lparr>vx = NaN, vy = NaN, vz = NaN\<rparr>
   \<and> vec (snd (Matrix_decompose test_store 0 (Some 1) (Some 0) (Some 0))) 1
       = \<lparr>vx = NaN, vy = NaN, vz = NaN\<rparr>
   \<and> quat (snd (Matrix_decompose test_store 0 (Some 1) (Some 0) (Some 0))) 0
       = \<lparr>qx = NaN, qy = NaN, qz = NaN, qw = NaN\<rparr>"
proof -
  have i: "isIdentity (mat test_store 0)" by (simp add: test_store_facts)
  show ?thesis
    using decompose_identity_general(1)[OF i, where scale = "Some 1" and rotation = "Some 0"
        and translation = "Some 0"]
      decompose_identity_general(2)[OF i, where r = 0 and scale = "Some 1" and rotation = "Some 0"
        and translation = "Some 0"]
      decompose_identity_general(2)[OF i, where r = 1 and scale = "Some 1" and rotation = "Some 0"
        and translation = "Some 0"]
      decompose_identity_general(3)[OF i, where q = 0 and scale = "Some 1" and rotation = "Some 0"
        and translation = "Some 0"]
    by (simp add: test_store_facts)
qed

lemma Matrix_determinant_test_store_2: "Matrix_determinant test_store 2 = Fin 8"
  unfolding Matrix_determinant_def Let_def
  by (simp add: test_store_facts minus_number_def)

lemma decomposed_scale_test_store_2:
  "decomposed_scale test_store 2 = \<lparr>vx = Fin 2, vy = Fin 2, vz = Fin 2\<rparr>"
  by (simp add: decomposed_scale_def Matrix_determinant_test_store_2 test_store_facts
      less_eq_number_def)

text \<open>
  C2. A matrix with scale 2 and last row \<open>(1, 2, 3, 1)\<close>, decomposed into the outputs of the
  repository's test: \<open>decompose\<close> returns true and \<open>sOut\<close> holds the row magnitudes
  \<open>(2, 2, 2)\<close>, but \<open>tOut\<close> is as it was (all \<open>NaN\<close>), not \<open>(1, 2, 3)\<close>.
\<close>

theorem Matrix_decompose_translation_unwritten:
  "fst (Matrix_decompose test_store 2 (Some 1) (Some 0) (Some 0)) = True
   \<and> vec (snd (Matrix_decompose test_store 2 (Some 1) (Some 0) (Some 0))) 1
       = \<lparr>vx = Fin 2, vy = Fin 2, vz = Fin 2\<rparr>
   \<and> vec (snd (Matrix_decompose test_store 2 (Some 1) (Some 0) (Some 0))) 0
       = \<lparr>vx = NaN, vy = NaN, vz = NaN\<rparr>
   \<and> [mData (mat test_store 2) ! 12, mData (mat test_store 2) ! 13, mData (mat test_store 2) ! 14]
       = [Fin 1, Fin 2, Fin 3]"
proof -
  have n: "\<not> isIdentity (mat test_store 2)" and l: "1 < length (vector3s test_store)"
    and l0: "0 < length (vector3s test_store)"
    by (simp_all add: test_store_facts)
  have "fst (Matrix_decompose test_store 2 (Some 1) (Some 0) (Some 0))"
    using decompose_ok[OF n l, of "Some 0" "Some 0"]
    by (simp add: decomposed_scale_test_store_2 strict_eq_def)
  moreover have "vec (snd (Matrix_decompose test_store 2 (Some 1) (Some 0) (Some 0))) 1
       = \<lparr>vx = Fin 2, vy = Fin 2, vz = Fin 2\<rparr>"
    using decompose_scale[OF n l, of "Some 0" "Some 0"] by (simp add: decomposed_scale_test_store_2)
  moreover have "vec (snd (Matrix_decompose test_store 2 (Some 1) (Some 0) (Some 0))) 0
       = \<lparr>vx = NaN, vy = NaN, vz = NaN\<rparr>"
    using decompose_translation_untouched[OF l0, of "Some 1" 2 "Some 0" "Some 0"]
    by (simp add: test_store_facts)
  ultimately show ?thesis by (simp add: test_store_facts)
qed

section \<open>Matrix.getRotationMatrixToRef\<close>

text \<open>
  C10. When the call of \<open>decompose\<close> inside \<open>getRotationMatrixToRef\<close> returns false, the
  matrix that the caller passed as \<open>result\<close> is the same after the call as before it.
\<close>

theorem Matrix_getRotationMatrixToRef_failure:
  assumes "result < length (matrices h)"
    and "\<not> fst (Matrix_decompose (snd (Vector3_Zero h)) self (Some (fst (Vector3_Zero h))) None None)"
  shows "mat (Matrix_getRotationMatrixToRef h self result) result = mat h result"
proof -
  let ?d = "Matrix_decompose (snd (Vector3_Zero h)) self (Some (fst (Vector3_Zero h))) None None"
  have m: "matrices (snd ?d) = matrices h"
    by (simp add: decompose_matrices_no_rotation)
  have "Matrix_getRotationMatrixToRef h self result = snd (Matrix_Identity (snd ?d))"
    using assms(2) by (simp add: Matrix_getRotationMatrixToRef_def Let_def split_beta)
  then show ?thesis
    using assms(1) m mat_Matrix_Identity_old[of result "snd ?d"] by (simp add: mat_def)
qed


theorem Matrix_getRotationMatrixToRef_failure_witness:
  "(2::nat) < length (matrices test_store)
   \<and> \<not> fst (Matrix_decompose (snd (Vector3_Zero test_store)) 1
             (Some (fst (Vector3_Zero test_store))) None None)
   \<and> mat (Matrix_getRotationMatrixToRef test_store 1 2) 2 = mat test_store 2
   \<and> mData (mat (Matrix_getRotationMatrixToRef test_store 1 2) 2)
       = [Fin 2, Fin 0, Fin 0, Fin 0, Fin 0, Fin 2, Fin 0, Fin 0,
          Fin 0, Fin 0, Fin 2, Fin 0, Fin 1, Fin 2, Fin 3, Fin 1]"
proof -
  have l: "(2::nat) < length (matrices test_store)" by (simp add: test_store_facts)
  have "strict_eq (vx (decomposed_scale (snd (Vector3_Zero test_store)) 1)) (Fin 0)"
    by (simp add: decomposed_scale_def test_store_facts strict_eq_def)
  then have f: "\<not> fst (Matrix_decompose (snd (Vector3_Zero test_store)) 1
             (Some (fst (Vector3_Zero test_store))) None None)"
    using decompose_fails_iff[of "fst (Vector3_Zero test_store)" "snd (Vector3_Zero test_store)" 1 None None]
    by (simp add: test_store_facts)
  show ?thesis
    using Matrix_getRotationMatrixToRef_failure[OF l f] l f by (simp add: test_store_facts)
qed
section \<open>Plane.normalize\<close>

lemma plane_store_eq:
  "plane_store = \<lparr>vector3s = [\<lparr>vx = Fin 2, vy = Fin 0, vz = Fin 0\<rparr>], quaternions = [],
     planes = [\<lparr>normal = 0, d = Fin 4\<rparr>], matrices = [], updateFlagSeed = 0\<rparr>"
  by (simp add: plane_store_def empty_store_def Plane_create_def Vector3_create_def)

lemma Plane_normalize_returns_argument: "fst (Plane_normalize h plane) = plane"
  by (simp add: Plane_normalize_def Let_def split_beta)

lemma Plane_normalize_input_untouched:
  assumes "plane < length (planes h)" and "normal (planes h ! plane) < length (vector3s h)"
  shows "planes (snd (Plane_normalize h plane)) ! plane = planes h ! plane"
    and "vec (snd (Plane_normalize h plane)) (normal (planes h ! plane)) = vec h (normal (planes h ! plane))"
  using assms
  by (simp_all add: Plane_normalize_def Plane_create_def Let_def split_beta nth_append
      set_vec_def vec_def Vector3_create_def nth_list_update)

text \<open>
  C8. \<open>Plane.normalize\<close> of the plane with normal \<open>(2, 0, 0)\<close> and \<open>d = 4\<close> returns the plane
  it was given, which still has the normal \<open>(2, 0, 0)\<close> of length 2 and \<open>d = 4\<close>. The plane
  that the function builds and drops (plane 1) has the unit normal \<open>(1, 0, 0)\<close> but \<open>d = 0\<close>.
\<close>

theorem Plane_normalize_returns_input_unchanged:
  "fst (Plane_normalize plane_store 0) = 0
   \<and> planes (snd (Plane_normalize plane_store 0)) ! 0 = \<lparr>normal = 0, d = Fin 4\<rparr>
   \<and> vec (snd (Plane_normalize plane_store 0)) 0 = \<lparr>vx = Fin 2, vy = Fin 0, vz = Fin 0\<rparr>
   \<and> Vector3_length (snd (Plane_normalize plane_store 0)) 0 = Fin 2
   \<and> planes (snd (Plane_normalize plane_store 0)) ! 1 = \<lparr>normal = 1, d = Fin 0\<rparr>
   \<and> vec (snd (Plane_normalize plane_store 0)) 1 = \<lparr>vx = Fin 1, vy = Fin 0, vz = Fin 0\<rparr>"
  by (simp add: plane_store_eq Plane_normalize_def Plane_create_def Vector3_create_def
      Vector3_length_def vec_def set_vec_def strict_eq_def Let_def
      cong: let_weak_cong prod.case_cong_weak)

section \<open>Quaternion.normalize\<close>

lemma quaternion_store_eq:
  "quaternion_store = \<lparr>vector3s = [],
     quaternions = [\<lparr>qx = Fin 0, qy = Fin 0, qz = Fin 0, qw = Fin 0\<rparr>,
                    \<lparr>qx = Fin 0, qy = Fin 0, qz = Fin 0, qw = Fin 1\<rparr>,
                    \<lparr>qx = Fin 0, qy = Fin 0, qz = Fin 0, qw = Fin (- 1)\<rparr>],
     planes = [], matrices = [], updateFlagSeed = 0\<rparr>"
  by (simp add: quaternion_store_def empty_store_def Quaternion_Zero_def Quaternion_create_def)

text \<open>
  C4. \<open>Quaternion.normalize\<close> of the zero quaternion \<open>(0, 0, 0, 0)\<close> returns a quaternion whose
  four components are \<open>NaN\<close> (\<open>1.0 / 0\<close> is \<open>Infinity\<close> and \<open>0 * Infinity\<close> is \<open>NaN\<close>); none
  of them is finite.
\<close>

theorem Quaternion_normalize_zero_is_NaN:
  "quat quaternion_store 0 = \<lparr>qx = Fin 0, qy = Fin 0, qz = Fin 0, qw = Fin 0\<rparr>
   \<and> quat (snd (Quaternion_normalize quaternion_store 0)) (fst (Quaternion_normalize quaternion_store 0))
       = \<lparr>qx = NaN, qy = NaN, qz = NaN, qw = NaN\<rparr>
   \<and> \<not> isFinite NaN"
  by (simp add: quaternion_store_eq Quaternion_normalize_def Quaternion_length_def
      Quaternion_lengthSquared_def Quaternion_create_def quat_def inf_of_sign_def Let_def)

section \<open>Quaternion.slerp\<close>

lemma slerpToRef_weights:
  "Quaternion_slerpToRef h left right amount result =
     (let (num3, num2) = Quaternion_slerp_weights (Quaternion_dot h left right) amount;
          h = set_quat h result (\<lambda>q. q\<lparr>qx := num3 * qx (quat h left) + num2 * qx (quat h right)\<rparr>);
          h = set_quat h result (\<lambda>q. q\<lparr>qy := num3 * qy (quat h left) + num2 * qy (quat h right)\<rparr>);
          h = set_quat h result (\<lambda>q. q\<lparr>qz := num3 * qz (quat h left) + num2 * qz (quat h right)\<rparr>);
          h = set_quat h result (\<lambda>q. q\<lparr>qw := num3 * qw (quat h left) + num2 * qw (quat h right)\<rparr>)
      in h)"
  unfolding Quaternion_slerpToRef_def Quaternion_slerp_weights_def Quaternion_dot_def Let_def
  by (simp add: split_beta)

lemma weights_0:
  "Quaternion_slerp_weights (Fin c) (Fin 0) = (Fin 1, Fin 0)"
proof -
  have s: "sin (arccos a) * (1 / sin (arccos a)) = 1" if "0 \<le> a" "a \<le> 999999 / 1000000" for a :: real
  proof -
    have "sin (arccos a) \<noteq> 0" using that by (intro sin_arccos_nonzero) auto
    then show ?thesis by simp
  qed
  show ?thesis
    unfolding Quaternion_slerp_weights_def Let_def
    using s[of c] s[of "- c"]
    by (auto simp add: minus_number_def sin_arccos_nonzero)
qed

lemma weights_1:
  "Quaternion_slerp_weights (Fin c) (Fin 1) = (Fin 0, if c < 0 then Fin (- 1) else Fin 1)"
proof -
  have s: "sin (arccos a) * (1 / sin (arccos a)) = 1" if "0 \<le> a" "a \<le> 999999 / 1000000" for a :: real
  proof -
    have "sin (arccos a) \<noteq> 0" using that by (intro sin_arccos_nonzero) auto
    then show ?thesis by simp
  qed
  show ?thesis
    unfolding Quaternion_slerp_weights_def Let_def
    using s[of c] s[of "- c"]
    by (auto simp add: minus_number_def sin_arccos_nonzero)
qed

lemma quat_set_quat [simp]:
  "quat (set_quat h r f) r' = (if r' = r \<and> r < length (quaternions h) then f (quat h r) else quat h r')"
  by (auto simp add: quat_def set_quat_def nth_list_update list_update_beyond)

lemma length_set_quat [simp]: "length (quaternions (set_quat h r f)) = length (quaternions h)"
  by (simp add: set_quat_def)

lemma isFinite_obtain: "isFinite a \<Longrightarrow> \<exists>r. a = Fin r"
  by (cases a) simp_all

lemma finite_quaternion_obtain:
  assumes "finite_quaternion q"
  obtains x y z w where "q = \<lparr>qx = Fin x, qy = Fin y, qz = Fin z, qw = Fin w\<rparr>"
proof -
  obtain x y z w where "qx q = Fin x" "qy q = Fin y" "qz q = Fin z" "qw q = Fin w"
    using assms isFinite_obtain unfolding finite_quaternion_def by metis
  then have "q = \<lparr>qx = Fin x, qy = Fin y, qz = Fin z, qw = Fin w\<rparr>" by (cases q) simp
  then show ?thesis using that by blast
qed

lemma Quaternion_slerp_result:
  assumes "left < length (quaternions h)" and "right < length (quaternions h)"
  shows "quat (snd (Quaternion_slerp h left right amount)) (fst (Quaternion_slerp h left right amount)) =
     \<lparr>qx = fst (Quaternion_slerp_weights (Quaternion_dot h left right) amount) * qx (quat h left)
            + snd (Quaternion_slerp_weights (Quaternion_dot h left right) amount) * qx (quat h right),
      qy = fst (Quaternion_slerp_weights (Quaternion_dot h left right) amount) * qy (quat h left)
            + snd (Quaternion_slerp_weights (Quaternion_dot h left right) amount) * qy (quat h right),
      qz = fst (Quaternion_slerp_weights (Quaternion_dot h left right) amount) * qz (quat h left)
            + snd (Quaternion_slerp_weights (Quaternion_dot h left right) amount) * qz (quat h right),
      qw = fst (Quaternion_slerp_weights (Quaternion_dot h left right) amount) * qw (quat h left)
            + snd (Quaternion_slerp_weights (Quaternion_dot h left right) amount) * qw (quat h right)\<rparr>"
proof -
  obtain res h1 where c: "Quaternion_Identity h = (res, h1)" by force
  have res: "res = length (quaternions h)" and l1: "length (quaternions h1) = Suc (length (quaternions h))"
    and ql: "quat h1 left = quat h left" and qr: "quat h1 right = quat h right"
    and qi: "quat h1 res = \<lparr>qx = Fin 0, qy = Fin 0, qz = Fin 0, qw = Fin 1\<rparr>"
    using c assms by (auto simp: Quaternion_Identity_def Quaternion_create_def quat_def nth_append)
  have dot: "Quaternion_dot h1 left right = Quaternion_dot h left right"
    by (simp add: Quaternion_dot_def ql qr)
  have ne: "left \<noteq> res" "right \<noteq> res" "res < length (quaternions h1)"
    using assms res l1 by simp_all
  have "Quaternion_slerp h left right amount = (res, Quaternion_slerpToRef h1 left right amount res)"
    by (simp add: Quaternion_slerp_def c)
  then show ?thesis
    using ne by (simp add: slerpToRef_weights dot Let_def split_beta ql qr qi)
qed

text \<open>
  C3 (as amended). For quaternions \<open>left\<close> and \<open>right\<close> with finite components,
  \<open>slerp(left, right, 0)\<close> equals \<open>left\<close> componentwise, and \<open>slerp(left, right, 1)\<close> equals
  \<open>right\<close> componentwise when the dot product is not negative and \<open>right\<close> with every
  component negated when the dot product is negative.
\<close>

theorem Quaternion_slerp_endpoints:
  assumes "left < length (quaternions h)" and "right < length (quaternions h)"
    and "finite_quaternion (quat h left)" and "finite_quaternion (quat h right)"
  shows "quat (snd (Quaternion_slerp h left right (Fin 0))) (fst (Quaternion_slerp h left right (Fin 0)))
           = quat h left
       \<and> quat (snd (Quaternion_slerp h left right (Fin 1))) (fst (Quaternion_slerp h left right (Fin 1)))
           = (if Quaternion_dot h left right < Fin 0
              then \<lparr>qx = - qx (quat h right), qy = - qy (quat h right),
                    qz = - qz (quat h right), qw = - qw (quat h right)\<rparr>
              else quat h right)"
proof -
  obtain lx ly lz lw where L: "quat h left = \<lparr>qx = Fin lx, qy = Fin ly, qz = Fin lz, qw = Fin lw\<rparr>"
    using assms(3) by (rule finite_quaternion_obtain)
  obtain rx ry rz rw where R: "quat h right = \<lparr>qx = Fin rx, qy = Fin ry, qz = Fin rz, qw = Fin rw\<rparr>"
    using assms(4) by (rule finite_quaternion_obtain)
  have dot: "Quaternion_dot h left right = Fin (lx * rx + ly * ry + lz * rz + lw * rw)"
    by (simp add: Quaternion_dot_def L R)
  show ?thesis
    by (simp add: Quaternion_slerp_result[OF assms(1,2)] dot weights_0 weights_1 L R)
qed

text \<open>
  C3 as stated fails: for \<open>a = (0, 0, 0, 1)\<close> and \<open>b = (0, 0, 0, -1)\<close> the dot product is
  negative and \<open>slerp(a, b, 1)\<close> is \<open>(0, 0, 0, 1)\<close>, which is not \<open>b\<close>.
\<close>

theorem Quaternion_slerp_amount_1_counterexample:
  "quat quaternion_store 1 = \<lparr>qx = Fin 0, qy = Fin 0, qz = Fin 0, qw = Fin 1\<rparr>
   \<and> quat quaternion_store 2 = \<lparr>qx = Fin 0, qy = Fin 0, qz = Fin 0, qw = Fin (- 1)\<rparr>
   \<and> quat (snd (Quaternion_slerp quaternion_store 1 2 (Fin 1))) (fst (Quaternion_slerp quaternion_store 1 2 (Fin 1)))
       = \<lparr>qx = Fin 0, qy = Fin 0, qz = Fin 0, qw = Fin 1\<rparr>
   \<and> quat (snd (Quaternion_slerp quaternion_store 1 2 (Fin 1))) (fst (Quaternion_slerp quaternion_store 1 2 (Fin 1)))
       \<noteq> quat quaternion_store 2"
  by (simp add: quaternion_store_eq Quaternion_slerp_def Quaternion_slerpToRef_def
      Quaternion_Identity_def Quaternion_create_def quat_def set_quat_def minus_number_def Let_def
      cong: let_weak_cong prod.case_cong_weak)

theorem Quaternion_slerp_endpoints_witness:
  "(1::nat) < length (quaternions quaternion_store) \<and> (2::nat) < length (quaternions quaternion_store)
   \<and> finite_quaternion (quat quaternion_store 1) \<and> finite_quaternion (quat quaternion_store 2)
   \<and> Quaternion_dot quaternion_store 1 2 < Fin 0
   \<and> quat (snd (Quaternion_slerp quaternion_store 1 2 (Fin 0))) (fst (Quaternion_slerp quaternion_store 1 2 (Fin 0)))
       = \<lparr>qx = Fin 0, qy = Fin 0, qz = Fin 0, qw = Fin 1\<rparr>
   \<and> quat (snd (Quaternion_slerp quaternion_store 1 2 (Fin 1))) (fst (Quaternion_slerp quaternion_store 1 2 (Fin 1)))
       = \<lparr>qx = Fin 0, qy = Fin 0, qz = Fin 0, qw = Fin 1\<rparr>
   \<and> quat (snd (Quaternion_slerp quaternion_store 1 1 (Fin 1))) (fst (Quaternion_slerp quaternion_store 1 1 (Fin 1)))
       = \<lparr>qx = Fin 0, qy = Fin 0, qz = Fin 0, qw = Fin 1\<rparr>"
proof -
  have l: "(1::nat) < length (quaternions quaternion_store)" "(2::nat) < length (quaternions quaternion_store)"
    by (simp_all add: quaternion_store_eq)
  have q: "quat quaternion_store 1 = \<lparr>qx = Fin 0, qy = Fin 0, qz = Fin 0, qw = Fin 1\<rparr>"
    "quat quaternion_store 2 = \<lparr>qx = Fin 0, qy = Fin 0, qz = Fin 0, qw = Fin (- 1)\<rparr>"
    by (simp_all add: quaternion_store_eq quat_def)
  have f: "finite_quaternion (quat quaternion_store 1)" "finite_quaternion (quat quaternion_store 2)"
    using q by (simp_all add: finite_quaternion_def)
  have d: "Quaternion_dot quaternion_store 1 2 < Fin 0" "\<not> Quaternion_dot quaternion_store 1 1 < Fin 0"
    using q by (simp_all add: Quaternion_dot_def)
  show ?thesis
    using Quaternion_slerp_endpoints[OF l(1) l(2) f(1) f(2)]
      Quaternion_slerp_endpoints[OF l(1) l(1) f(1) f(1)] l f d q
    by simp
qed

text \<open>Away from the zero quaternion, \<open>Quaternion.normalize\<close> keeps finite components finite.\<close>

lemma Quaternion_normalize_finite:
  assumes "finite_quaternion (quat h q)" and "Quaternion_length h q \<noteq> Fin 0"
  shows "finite_quaternion (quat (snd (Quaternion_normalize h q)) (fst (Quaternion_normalize h q)))"
proof -
  obtain x y z w where Q: "quat h q = \<lparr>qx = Fin x, qy = Fin y, qz = Fin z, qw = Fin w\<rparr>"
    using assms(1) by (rule finite_quaternion_obtain)
  have s: "\<not> x * x + y * y + z * z + w * w < 0"
    by (simp add: not_less add_nonneg_nonneg)
  have l: "Quaternion_length h q = Fin (sqrt (x * x + y * y + z * z + w * w))"
    using s by (simp add: Quaternion_length_def Quaternion_lengthSquared_def Q)
  then have "sqrt (x * x + y * y + z * z + w * w) \<noteq> 0" using assms(2) by auto
  then show ?thesis
    unfolding Quaternion_normalize_def Let_def l
    using Q by (simp add: finite_quaternion_def Quaternion_create_def quat_def)
qed

section \<open>The update flag\<close>























text \<open>
  The modelled operations as runs: \<open>fromValuesToRef\<close>, \<open>IdentityToRef\<close> and \<open>copy\<close> are element
  writes followed by stamping calls on the target, \<open>copyToArray\<close> into the element array of
  a matrix is element writes only.
\<close>

lemma Matrix_fromValuesToRef_run:
  "Matrix_fromValuesToRef h a0 a1 a2 a3 a4 a5 a6 a7 a8 a9 a10 a11 a12 a13 a14 a15 r =
     run h [Write r 0 a0, Write r 1 a1, Write r 2 a2, Write r 3 a3,
            Write r 4 a4, Write r 5 a5, Write r 6 a6, Write r 7 a7,
            Write r 8 a8, Write r 9 a9, Write r 10 a10, Write r 11 a11,
            Write r 12 a12, Write r 13 a13, Write r 14 a14, Write r 15 a15,
            MarkAsUpdated r]"
  unfolding Matrix_fromValuesToRef_def Let_def by simp

lemma run_append: "run h (es @ es') = run (run h es) es'"
  by (induction es arbitrary: h) simp_all

lemma Matrix_IdentityToRef_run:
  "Matrix_IdentityToRef h r =
     run h [Write r 0 (Fin 1), Write r 1 (Fin 0), Write r 2 (Fin 0), Write r 3 (Fin 0),
            Write r 4 (Fin 0), Write r 5 (Fin 1), Write r 6 (Fin 0), Write r 7 (Fin 0),
            Write r 8 (Fin 0), Write r 9 (Fin 0), Write r 10 (Fin 1), Write r 11 (Fin 0),
            Write r 12 (Fin 0), Write r 13 (Fin 0), Write r 14 (Fin 0), Write r 15 (Fin 1),
            MarkAsUpdated r, UpdateIdentityStatus r True False False True]"
  unfolding Matrix_IdentityToRef_def Matrix_fromValuesToRef_def Let_def by simp

lemma copy_step_keeps_source:
  "mData (mat (set_m h dest i (mData (mat h from) ! i)) from) = mData (mat h from)"
  by (cases "dest < length (matrices h)"; cases "from = dest")
     (simp_all add: set_m_def set_mat_def mat_def list_update_beyond)

lemma copy_loop_run:
  "fold (\<lambda>index h. set_m h dest index (mData (mat h from) ! index)) is h
     = run h (map (\<lambda>index. Write dest index (mData (mat h from) ! index)) is)"
proof (induction "is" arbitrary: h)
  case Nil
  then show ?case by simp
next
  case (Cons i "is")
  let ?h1 = "set_m h dest i (mData (mat h from) ! i)"
  have m: "mData (mat ?h1 from) = mData (mat h from)"
    by (rule copy_step_keeps_source)
  have "fold (\<lambda>index h. set_m h dest index (mData (mat h from) ! index)) (i # is) h
      = fold (\<lambda>index h. set_m h dest index (mData (mat h from) ! index)) is ?h1"
    by simp
  also have "\<dots> = run ?h1 (map (\<lambda>index. Write dest index (mData (mat ?h1 from) ! index)) is)"
    by (rule Cons.IH)
  also have "\<dots> = run ?h1 (map (\<lambda>index. Write dest index (mData (mat h from) ! index)) is)"
    by (simp only: m)
  also have "\<dots> = run h (map (\<lambda>index. Write dest index (mData (mat h from) ! index)) (i # is))"
    by simp
  finally show ?case .
qed

lemma Matrix_copyToArray_run:
  "Matrix_copyToArray h from dest 0
     = run h (map (\<lambda>index. Write dest index (mData (mat h from) ! index)) [0..<16])"
  unfolding Matrix_copyToArray_def using copy_loop_run[of dest "from" "[0..<16]" h] by simp

lemma set_m_keeps_flags:
  "isIdentity (mat (set_m h dest i v) r) = isIdentity (mat h r)"
  "isIdentityDirty (mat (set_m h dest i v) r) = isIdentityDirty (mat h r)"
  "isIdentity3x2 (mat (set_m h dest i v) r) = isIdentity3x2 (mat h r)"
  "isIdentity3x2Dirty (mat (set_m h dest i v) r) = isIdentity3x2Dirty (mat h r)"
  by (cases "dest < length (matrices h)"; cases "r = dest";
      simp add: set_m_def set_mat_def mat_def list_update_beyond)+

lemma copy_loop_keeps_flags:
  "isIdentity (mat (fold (\<lambda>index h. set_m h dest (off + index) (mData (mat h from) ! index)) is h) r)
     = isIdentity (mat h r)"
  "isIdentityDirty (mat (fold (\<lambda>index h. set_m h dest (off + index) (mData (mat h from) ! index)) is h) r)
     = isIdentityDirty (mat h r)"
  "isIdentity3x2 (mat (fold (\<lambda>index h. set_m h dest (off + index) (mData (mat h from) ! index)) is h) r)
     = isIdentity3x2 (mat h r)"
  "isIdentity3x2Dirty (mat (fold (\<lambda>index h. set_m h dest (off + index) (mData (mat h from) ! index)) is h) r)
     = isIdentity3x2Dirty (mat h r)"
  by (induction "is" arbitrary: h) (simp_all add: set_m_keeps_flags)

lemma Matrix_copy_run:
  "Matrix_copy h from dest
     = run h (map (\<lambda>index. Write dest index (mData (mat h from) ! index)) [0..<16]
              @ [UpdateIdentityStatus dest (isIdentity (mat h from)) (isIdentityDirty (mat h from))
                   (isIdentity3x2 (mat h from)) (isIdentity3x2Dirty (mat h from))])"
proof -
  have "isIdentity (mat (Matrix_copyToArray h from dest 0) from) = isIdentity (mat h from)"
    "isIdentityDirty (mat (Matrix_copyToArray h from dest 0) from) = isIdentityDirty (mat h from)"
    "isIdentity3x2 (mat (Matrix_copyToArray h from dest 0) from) = isIdentity3x2 (mat h from)"
    "isIdentity3x2Dirty (mat (Matrix_copyToArray h from dest 0) from) = isIdentity3x2Dirty (mat h from)"
    unfolding Matrix_copyToArray_def by (rule copy_loop_keeps_flags)+
  then show ?thesis
    by (simp add: Matrix_copy_def Let_def run_append Matrix_copyToArray_run[symmetric])
qed



lemma stamps_below_seed_empty: "stamps_below_seed empty_store"
  by (simp add: stamps_below_seed_def empty_store_def)



end
